theory Spec2Isabelle
  imports Main "HOL-Library.Sublist"
begin

section \<open>The wenyan MCP server: tool router and WeChat API helpers\<close>

text \<open>
  A shallow embedding of \<^verbatim>\<open>src/index.ts\<close> (the tool router) and of
  \<^verbatim>\<open>src/wechat-api.ts\<close> (token fetch, permanent-material upload, draft add).

  Every \<^verbatim>\<open>await\<close> of the source is a step that reads an answer from the
  outside world and appends one event to a trace. A \<^verbatim>\<open>throw\<close> is the value
  \<open>Inl\<close>, a \<^verbatim>\<open>return\<close> the value \<open>Inr\<close>. The functions take the trace of the
  events so far and return the result together with the extended trace, so that both
  the result and the calls that were made on the way can be read off.

  Strings are byte lists: ASCII text is written as it stands in the source, the Chinese
  text of the messages as the UTF-8 bytes of the source file. Values are typed as the
  TypeScript declarations type them; a field that the code tests for presence is
  optional.
\<close>

subsection \<open>JavaScript values\<close>

text \<open>Truthiness of an optional number and of an optional string.\<close>

fun truthy_num :: "int option \<Rightarrow> bool" where
  "truthy_num None = False"
| "truthy_num (Some n) = (n \<noteq> 0)"

fun truthy_str :: "string option \<Rightarrow> bool" where
  "truthy_str None = False"
| "truthy_str (Some s) = (s \<noteq> [])"

text \<open>
  \<^verbatim>\<open>String(x || "")\<close> for an optional string \<open>x\<close>, and \<^verbatim>\<open>xs || []\<close> for
  an optional array.
\<close>

fun String_or_empty :: "string option \<Rightarrow> string" where
  "String_or_empty None = []"
| "String_or_empty (Some s) = s"

fun array_or_empty :: "'a list option \<Rightarrow> 'a list" where
  "array_or_empty None = []"
| "array_or_empty (Some xs) = xs"

text \<open>The decimal numeral of an integer.\<close>

fun digits :: "nat \<Rightarrow> string" where
  "digits n =
     (if n < 10 then [''0123456789'' ! n]
      else digits (n div 10) @ [''0123456789'' ! (n mod 10)])"

declare digits.simps [simp del]

definition decimal :: "int \<Rightarrow> string" where
  "decimal i = (if i < 0 then CHR ''-'' # digits (nat (- i)) else digits (nat i))"

text \<open>
  The safe integers: the integers that a JavaScript number holds exactly and that its
  conversion to a string prints as their decimal numeral.
\<close>

definition safe_integer :: "int \<Rightarrow> bool" where
  "safe_integer n = (- 9007199254740991 \<le> n \<and> n \<le> 9007199254740991)"

text \<open>\<^verbatim>\<open>s.startsWith(p)\<close>.\<close>

definition startsWith :: "string \<Rightarrow> string \<Rightarrow> bool" where
  "startsWith s p = (take (length p) s = p)"

text \<open>
  \<^verbatim>\<open>s.split("/")\<close> for a one-character separator: the pieces between the
  separators, never an empty array. \<^verbatim>\<open>pop()\<close> is the last piece, undefined on an
  empty array.
\<close>

fun split :: "char \<Rightarrow> string \<Rightarrow> string list" where
  "split sep [] = [[]]"
| "split sep (c # cs) =
     (if c = sep then [] # split sep cs
      else (case split sep cs of [] \<Rightarrow> [[c]] | piece # pieces \<Rightarrow> (c # piece) # pieces))"

definition pop :: "'a list \<Rightarrow> 'a option" where
  "pop xs = (if xs = [] then None else Some (last xs))"

text \<open>\<^verbatim>\<open>x || d\<close> for an optional string \<open>x\<close> and a string \<open>d\<close>.\<close>

fun or_default :: "string option \<Rightarrow> string \<Rightarrow> string" where
  "or_default None d = d"
| "or_default (Some s) d = (if s = [] then d else s)"

subsection \<open>Data model\<close>

text \<open>
  The JSON body of a platform response: the union of \<^verbatim>\<open>AccessTokenResponse\<close>,
  \<^verbatim>\<open>DraftAddResponse\<close>, the upload response and the
  \<^verbatim>\<open>{ errcode?: number; errmsg?: string }\<close> that the code intersects them with.
  A number is the integer that the parse of the body produced (the platform's codes and
  the expiry are integers).
\<close>

record wx_data =
  errcode :: "int option"
  errmsg :: "string option"
  access_token :: "string option"
  expires_in :: "int option"
  media_id :: "string option"
  url :: "string option"

text \<open>
  A \<^verbatim>\<open>Response\<close> of \<^verbatim>\<open>fetch\<close>: the status, the body (\<open>None\<close> is a null
  body) and what \<^verbatim>\<open>response.json()\<close> gives: the parsed object, or the message of the
  rejection when the body is not JSON.
\<close>

record http_response =
  status :: nat
  body :: "string option"
  json :: "string + wx_data"

definition ok :: "http_response \<Rightarrow> bool" where
  "ok r = (200 \<le> status r \<and> status r \<le> 299)"

definition text_of :: "http_response \<Rightarrow> string" where
  "text_of r = (case body r of None \<Rightarrow> [] | Some b \<Rightarrow> b)"

datatype material_type = ImageMaterial | VideoMaterial

fun type_name :: "material_type \<Rightarrow> string" where
  "type_name ImageMaterial = ''image''"
| "type_name VideoMaterial = ''video''"

record description =
  desc_title :: "string option"
  introduction :: "string option"

text \<open>
  What is appended to the multipart form: a \<^verbatim>\<open>Blob\<close> of downloaded bytes or the
  \<^verbatim>\<open>File\<close> that \<^verbatim>\<open>fileFromPath\<close> gave, with its file name, and the
  description of a video (kept as the object that \<^verbatim>\<open>JSON.stringify\<close> serialises).
\<close>

datatype file_object = Blob string | File string

datatype form_field = media file_object string | description_field description

text \<open>The draft payload of \<^verbatim>\<open>publishImageMessageToDraft\<close>, before serialisation.\<close>

record image_entry =
  image_media_id :: string

record article =
  article_type :: string
  title :: string
  content :: string
  image_list :: "image_entry list"
  need_open_comment :: nat
  only_fans_can_comment :: nat

record draft_body =
  articles :: "article list"

datatype request =
    GET string
  | POST_form string "form_field list"
  | POST_json string draft_body

text \<open>What the external content formatter returns, and an entry of its theme catalog.\<close>

record gzh_content =
  gzh_title :: "string option"
  gzh_cover :: "string option"
  gzh_body :: string

record theme =
  theme_ident :: string
  theme_name :: string
  theme_description :: string

text \<open>The calls that leave the process, in the order they are made.\<close>

datatype event =
    Fetch request
  | FileFromPath string
  | GetGzhContent string string string bool bool
  | PublishToDraft string string string

text \<open>
  The outside world: what each call answers, given the events so far. \<open>Inl m\<close> is a
  rejection with message \<open>m\<close>. \<open>pathname\<close> is \<^verbatim>\<open>new URL(s).pathname\<close> (the
  constructor throws on an invalid URL), \<open>basename\<close> is the \<^verbatim>\<open>basename\<close> of the
  platform's path library, \<open>themes\<close> the imported theme catalog, \<open>number_text\<close> the
  runtime's text of a number beyond the safe integers.
\<close>

record world =
  fetch :: "event list \<Rightarrow> request \<Rightarrow> string + http_response"
  fileFromPath :: "event list \<Rightarrow> string \<Rightarrow> string + file_object"
  getGzhContent :: "event list \<Rightarrow> string \<Rightarrow> string \<Rightarrow> string + gzh_content"
  publishToDraft :: "event list \<Rightarrow> string \<Rightarrow> string \<Rightarrow> string \<Rightarrow> string + string"
  pathname :: "string \<Rightarrow> string + string"
  basename :: "string \<Rightarrow> string"
  themes :: "theme list"
  number_text :: "int \<Rightarrow> string"

text \<open>
  \<^verbatim>\<open>String(n)\<close> for an integer-valued number \<open>n\<close>, as a template string renders
  it: the decimal numeral when \<open>n\<close> is a safe integer. Beyond the safe integers the
  runtime prints the shortest digits of the double, in exponent notation from
  \<open>1e21\<close> on; floating point is not modelled, that text is taken from the
  world (\<open>number_text\<close>).
\<close>

definition String_of_number :: "world \<Rightarrow> int \<Rightarrow> string" where
  "String_of_number w n = (if safe_integer n then decimal n else number_text w n)"

text \<open>
  The text of \<^verbatim>\<open>${data.errmsg || data.errcode}\<close>: the message when it is truthy,
  the code otherwise (\<^verbatim>\<open>undefined\<close> renders as that word).
\<close>

fun String_of_errcode :: "world \<Rightarrow> int option \<Rightarrow> string" where
  "String_of_errcode w None = ''undefined''"
| "String_of_errcode w (Some n) = String_of_number w n"

definition errmsg_or_errcode :: "world \<Rightarrow> string option \<Rightarrow> int option \<Rightarrow> string" where
  "errmsg_or_errcode w m c =
     (if truthy_str m then String_or_empty m else String_of_errcode w c)"

subsection \<open>Errors\<close>

text \<open>
  One constructor for each \<^verbatim>\<open>throw\<close> of the source, with the variable part of its
  message, and one for an exception that a library call or a collaborator raised, which
  passes through unchanged.
\<close>

datatype error =
    ConfigError
  | ValidationError
  | UnknownToolError
  | CredentialError string
  | CredentialTokenMissing
  | DownloadError string
  | UploadStatusError nat string
  | UploadError string
  | UploadMediaIdMissing
  | DraftError string
  | DraftMediaIdMissing
  | Rejected string

definition txt_config :: string where \<comment> \<open>index.ts:150\<close>
  "txt_config =
     [CHR 0xE6, CHR 0x9C, CHR 0xAA, CHR 0xE8, CHR 0xAE, CHR 0xBE, CHR 0xE7, CHR 0xBD, CHR 0xAE] @
     '' WECHAT_APP_ID '' @
     [CHR 0xE6, CHR 0x88, CHR 0x96] @
     '' WECHAT_APP_SECRET '' @
     [CHR 0xE7, CHR 0x8E, CHR 0xAF, CHR 0xE5, CHR 0xA2, CHR 0x83, CHR 0xE5, CHR 0x8F, CHR 0x98,
      CHR 0xE9, CHR 0x87, CHR 0x8F]"

definition txt_validation :: string where \<comment> \<open>index.ts:158\<close>
  "txt_validation =
     ''title'' @
     [CHR 0xE3, CHR 0x80, CHR 0x81] @
     ''content '' @
     [CHR 0xE5, CHR 0x92, CHR 0x8C] @
     '' images '' @
     [CHR 0xE5, CHR 0x8F, CHR 0x82, CHR 0xE6, CHR 0x95, CHR 0xB0, CHR 0xE9, CHR 0x83, CHR 0xBD,
      CHR 0xE6, CHR 0x98, CHR 0xAF, CHR 0xE5, CHR 0xBF, CHR 0x85, CHR 0xE9, CHR 0x9C, CHR 0x80,
      CHR 0xE7, CHR 0x9A, CHR 0x84, CHR 0xEF, CHR 0xBC, CHR 0x8C, CHR 0xE4, CHR 0xB8, CHR 0x94] @
     '' images '' @
     [CHR 0xE4, CHR 0xB8, CHR 0x8D, CHR 0xE8, CHR 0x83, CHR 0xBD, CHR 0xE4, CHR 0xB8, CHR 0xBA,
      CHR 0xE7, CHR 0xA9, CHR 0xBA]"

definition txt_token_failed :: string where \<comment> \<open>wechat-api.ts:34, the fixed part\<close>
  "txt_token_failed =
     [CHR 0xE8, CHR 0x8E, CHR 0xB7, CHR 0xE5, CHR 0x8F, CHR 0x96] @
     '' access_token '' @
     [CHR 0xE5, CHR 0xA4, CHR 0xB1, CHR 0xE8, CHR 0xB4, CHR 0xA5] @
     '': ''"

definition txt_token_missing :: string where \<comment> \<open>wechat-api.ts:38\<close>
  "txt_token_missing =
     [CHR 0xE8, CHR 0x8E, CHR 0xB7, CHR 0xE5, CHR 0x8F, CHR 0x96] @
     '' access_token '' @
     [CHR 0xE5, CHR 0xA4, CHR 0xB1, CHR 0xE8, CHR 0xB4, CHR 0xA5] @
     '': '' @
     [CHR 0xE5, CHR 0x93, CHR 0x8D, CHR 0xE5, CHR 0xBA, CHR 0x94, CHR 0xE4, CHR 0xB8, CHR 0xAD,
      CHR 0xE6, CHR 0x9C, CHR 0xAA, CHR 0xE5, CHR 0x8C, CHR 0x85, CHR 0xE5, CHR 0x90, CHR 0xAB] @
     '' access_token''"

definition txt_upload_failed :: string where \<comment> \<open>wechat-api.ts:151 and 157, the fixed part\<close>
  "txt_upload_failed =
     [CHR 0xE4, CHR 0xB8, CHR 0x8A, CHR 0xE4, CHR 0xBC, CHR 0xA0, CHR 0xE6, CHR 0xB0, CHR 0xB8,
      CHR 0xE4, CHR 0xB9, CHR 0x85, CHR 0xE7, CHR 0xB4, CHR 0xA0, CHR 0xE6, CHR 0x9D, CHR 0x90,
      CHR 0xE5, CHR 0xA4, CHR 0xB1, CHR 0xE8, CHR 0xB4, CHR 0xA5] @
     '': ''"

definition txt_upload_missing :: string where \<comment> \<open>wechat-api.ts:161\<close>
  "txt_upload_missing =
     [CHR 0xE4, CHR 0xB8, CHR 0x8A, CHR 0xE4, CHR 0xBC, CHR 0xA0, CHR 0xE6, CHR 0xB0, CHR 0xB8,
      CHR 0xE4, CHR 0xB9, CHR 0x85, CHR 0xE7, CHR 0xB4, CHR 0xA0, CHR 0xE6, CHR 0x9D, CHR 0x90,
      CHR 0xE5, CHR 0xA4, CHR 0xB1, CHR 0xE8, CHR 0xB4, CHR 0xA5] @
     '': '' @
     [CHR 0xE5, CHR 0x93, CHR 0x8D, CHR 0xE5, CHR 0xBA, CHR 0x94, CHR 0xE4, CHR 0xB8, CHR 0xAD,
      CHR 0xE6, CHR 0x9C, CHR 0xAA, CHR 0xE5, CHR 0x8C, CHR 0x85, CHR 0xE5, CHR 0x90, CHR 0xAB] @
     '' media_id''"

definition txt_draft_failed :: string where \<comment> \<open>wechat-api.ts:206, the fixed part\<close>
  "txt_draft_failed =
     [CHR 0xE5, CHR 0x8F, CHR 0x91, CHR 0xE5, CHR 0xB8, CHR 0x83, CHR 0xE5, CHR 0x9B, CHR 0xBE,
      CHR 0xE7, CHR 0x89, CHR 0x87, CHR 0xE6, CHR 0xB6, CHR 0x88, CHR 0xE6, CHR 0x81, CHR 0xAF,
      CHR 0xE5, CHR 0xA4, CHR 0xB1, CHR 0xE8, CHR 0xB4, CHR 0xA5] @
     '': ''"

definition txt_draft_missing :: string where \<comment> \<open>wechat-api.ts:210\<close>
  "txt_draft_missing =
     [CHR 0xE5, CHR 0x8F, CHR 0x91, CHR 0xE5, CHR 0xB8, CHR 0x83, CHR 0xE5, CHR 0x9B, CHR 0xBE,
      CHR 0xE7, CHR 0x89, CHR 0x87, CHR 0xE6, CHR 0xB6, CHR 0x88, CHR 0xE6, CHR 0x81, CHR 0xAF,
      CHR 0xE5, CHR 0xA4, CHR 0xB1, CHR 0xE8, CHR 0xB4, CHR 0xA5] @
     '': '' @
     [CHR 0xE5, CHR 0x93, CHR 0x8D, CHR 0xE5, CHR 0xBA, CHR 0x94, CHR 0xE4, CHR 0xB8, CHR 0xAD,
      CHR 0xE6, CHR 0x9C, CHR 0xAA, CHR 0xE5, CHR 0x8C, CHR 0x85, CHR 0xE5, CHR 0x90, CHR 0xAB] @
     '' media_id''"

definition txt_article_published :: string where \<comment> \<open>index.ts:129, up to the media id\<close>
  "txt_article_published =
     ''Your article was successfully published to '' @
     [CHR 0x27, CHR 0xE5, CHR 0x85, CHR 0xAC, CHR 0xE4, CHR 0xBC, CHR 0x97, CHR 0xE5, CHR 0x8F,
      CHR 0xB7, CHR 0xE8, CHR 0x8D, CHR 0x89, CHR 0xE7, CHR 0xA8, CHR 0xBF, CHR 0xE7, CHR 0xAE,
      CHR 0xB1, CHR 0x27] @
     ''. The media ID is ''"

definition txt_image_published :: string where \<comment> \<open>index.ts:183, the fixed part\<close>
  "txt_image_published =
     [CHR 0xE5, CHR 0x9B, CHR 0xBE, CHR 0xE7, CHR 0x89, CHR 0x87, CHR 0xE6, CHR 0xB6, CHR 0x88,
      CHR 0xE6, CHR 0x81, CHR 0xAF, CHR 0xE5, CHR 0xB7, CHR 0xB2, CHR 0xE6, CHR 0x88, CHR 0x90,
      CHR 0xE5, CHR 0x8A, CHR 0x9F, CHR 0xE5, CHR 0x8F, CHR 0x91, CHR 0xE5, CHR 0xB8, CHR 0x83,
      CHR 0xE5, CHR 0x88, CHR 0xB0, CHR 0xE5, CHR 0x85, CHR 0xAC, CHR 0xE4, CHR 0xBC, CHR 0x97,
      CHR 0xE5, CHR 0x8F, CHR 0xB7, CHR 0xE8, CHR 0x8D, CHR 0x89, CHR 0xE7, CHR 0xA8, CHR 0xBF,
      CHR 0xE7, CHR 0xAE, CHR 0xB1, CHR 0xE3, CHR 0x80, CHR 0x82] @
     ''Media ID: ''"

text \<open>
  The message of the \<^verbatim>\<open>Error\<close> that is thrown (the world is there for the text of
  a number).
\<close>

fun message :: "world \<Rightarrow> error \<Rightarrow> string" where
  "message w ConfigError = txt_config"
| "message w ValidationError = txt_validation"
| "message w UnknownToolError = ''Unknown tool''"
| "message w (CredentialError detail) = txt_token_failed @ detail"
| "message w CredentialTokenMissing = txt_token_missing"
| "message w (DownloadError filePath) = ''Failed to download file from URL: '' @ filePath"
| "message w (UploadStatusError st errorText) =
     txt_upload_failed @ String_of_number w (int st) @ '' '' @ errorText"
| "message w (UploadError detail) = txt_upload_failed @ detail"
| "message w UploadMediaIdMissing = txt_upload_missing"
| "message w (DraftError detail) = txt_draft_failed @ detail"
| "message w DraftMediaIdMissing = txt_draft_missing"
| "message w (Rejected m) = m"

subsection \<open>Asynchronous steps\<close>

text \<open>
  A computation takes the trace so far and returns its outcome with the trace it leaves.
  \<open>await ev answer\<close> makes the outside call \<open>ev\<close> and waits for the answer;
  \<open>settle\<close> awaits a promise that makes no outside call (\<^verbatim>\<open>response.json()\<close>,
  or a constructor that may throw). After a \<^verbatim>\<open>throw\<close> nothing else runs.
\<close>

type_synonym 'a io = "event list \<Rightarrow> (error + 'a) \<times> event list"

definition return_io :: "'a \<Rightarrow> 'a io" where
  "return_io x tr = (Inr x, tr)"

definition throw :: "error \<Rightarrow> 'a io" where
  "throw e tr = (Inl e, tr)"

definition bind_io :: "'a io \<Rightarrow> ('a \<Rightarrow> 'b io) \<Rightarrow> 'b io" where
  "bind_io m f tr = (case m tr of (Inl e, tr') \<Rightarrow> (Inl e, tr') | (Inr x, tr') \<Rightarrow> f x tr')"

definition await :: "event \<Rightarrow> (event list \<Rightarrow> string + 'a) \<Rightarrow> 'a io" where
  "await ev answer tr =
     (case answer tr of
        Inl m \<Rightarrow> (Inl (Rejected m), tr @ [ev])
      | Inr x \<Rightarrow> (Inr x, tr @ [ev]))"

definition settle :: "string + 'a \<Rightarrow> 'a io" where
  "settle p tr = (case p of Inl m \<Rightarrow> (Inl (Rejected m), tr) | Inr x \<Rightarrow> (Inr x, tr))"

definition await_fetch :: "world \<Rightarrow> request \<Rightarrow> http_response io" where
  "await_fetch w req = await (Fetch req) (\<lambda>tr. fetch w tr req)"

subsection \<open>wechat-api.ts\<close>

definition token_url :: "string \<Rightarrow> string \<Rightarrow> string" where \<comment> \<open>wechat-api.ts:29\<close>
  "token_url appId appSecret =
     ''https://api.weixin.qq.com/cgi-bin/token?grant_type=client_credential&appid=''
       @ appId @ ''&secret='' @ appSecret"

definition material_url :: "string \<Rightarrow> material_type \<Rightarrow> string" where \<comment> \<open>wechat-api.ts:141\<close>
  "material_url accessToken type =
     ''https://api.weixin.qq.com/cgi-bin/material/add_material?access_token=''
       @ accessToken @ ''&type='' @ type_name type"

definition draft_url :: "string \<Rightarrow> string" where \<comment> \<open>wechat-api.ts:176\<close>
  "draft_url accessToken =
     ''https://api.weixin.qq.com/cgi-bin/draft/add?access_token='' @ accessToken"

definition getAccessToken :: "world \<Rightarrow> string \<Rightarrow> string \<Rightarrow> string io" where
  "getAccessToken w appId appSecret =
     (let url = token_url appId appSecret in
      bind_io (await_fetch w (GET url)) (\<lambda>response.
      bind_io (settle (json response)) (\<lambda>data.
        if truthy_num (errcode data)
        then throw (CredentialError (errmsg_or_errcode w (errmsg data) (errcode data)))
        else if \<not> truthy_str (access_token data)
        then throw CredentialTokenMissing
        else return_io (String_or_empty (access_token data)))))"

definition uploadPermanentMaterial ::
  "world \<Rightarrow> string \<Rightarrow> string \<Rightarrow> material_type \<Rightarrow> description option \<Rightarrow> string io" where
  "uploadPermanentMaterial w accessToken filePath type description =
     (let defaultFilename = (if type = VideoMaterial then ''video.mp4'' else ''image.jpg'') in
      bind_io
        (if startsWith filePath ''http://'' \<or> startsWith filePath ''https://''
         then
           bind_io (await_fetch w (GET filePath)) (\<lambda>response.
             if \<not> ok response \<or> body response = None
             then throw (DownloadError filePath)
             else
               bind_io (settle (pathname w filePath)) (\<lambda>urlPath.
                 return_io
                   (or_default (pop (split CHR ''/'' urlPath)) defaultFilename,
                    Blob (text_of response))))
         else
           bind_io (await (FileFromPath filePath) (\<lambda>tr. fileFromPath w tr filePath))
             (\<lambda>file. return_io (basename w filePath, file)))
        (\<lambda>(filename, file).
           let form =
                 media file filename #
                 (case description of
                    None \<Rightarrow> []
                  | Some d \<Rightarrow> if type = VideoMaterial then [description_field d] else []);
               url = material_url accessToken type
           in
           bind_io (await_fetch w (POST_form url form)) (\<lambda>response.
             if \<not> ok response
             then throw (UploadStatusError (status response) (text_of response))
             else
               bind_io (settle (json response)) (\<lambda>data.
                 if truthy_num (errcode data)
                 then throw (UploadError (errmsg_or_errcode w (errmsg data) (errcode data)))
                 else if \<not> truthy_str (media_id data)
                 then throw UploadMediaIdMissing
                 else return_io (String_or_empty (media_id data))))))"

definition draft_request_body :: "string \<Rightarrow> string \<Rightarrow> string list \<Rightarrow> draft_body" where
  \<comment> \<open>wechat-api.ts:178-193\<close>
  "draft_request_body ttl cnt imageMediaIds =
     \<lparr>articles =
        [\<lparr>article_type = ''newspic'',
          title = ttl,
          content = cnt,
          image_list = map (\<lambda>mediaId. \<lparr>image_media_id = mediaId\<rparr>) imageMediaIds,
          need_open_comment = 0,
          only_fans_can_comment = 0\<rparr>]\<rparr>"

definition publishImageMessageToDraft ::
  "world \<Rightarrow> string \<Rightarrow> string \<Rightarrow> string \<Rightarrow> string list \<Rightarrow> string io" where
  "publishImageMessageToDraft w accessToken ttl cnt imageMediaIds =
     (let url = draft_url accessToken;
          requestBody = draft_request_body ttl cnt imageMediaIds
      in
      bind_io (await_fetch w (POST_json url requestBody)) (\<lambda>response.
      bind_io (settle (json response)) (\<lambda>data.
        if truthy_num (errcode data)
        then throw (DraftError (errmsg_or_errcode w (errmsg data) (errcode data)))
        else if \<not> truthy_str (media_id data)
        then throw DraftMediaIdMissing
        else return_io (String_or_empty (media_id data)))))"

subsection \<open>index.ts: the tool router\<close>

text \<open>
  The arguments of a call, typed as the advertised input schemas type them; each may be
  missing, and so may the whole \<^verbatim>\<open>arguments\<close> object.
\<close>

record arguments =
  arg_content :: "string option"
  theme_id :: "string option"
  arg_title :: "string option"
  images :: "string list option"

record call_request =
  name :: string
  arguments :: "arguments option"

text \<open>\<^verbatim>\<open>request.params.arguments?.field\<close>\<close>

definition argument :: "(arguments \<Rightarrow> 'a option) \<Rightarrow> call_request \<Rightarrow> 'a option" where
  "argument field request = (case arguments request of None \<Rightarrow> None | Some a \<Rightarrow> field a)"

text \<open>
  A block of the result: a text, or the text that \<^verbatim>\<open>JSON.stringify\<close> makes of a
  theme's id, name and description (kept as the three values).
\<close>

datatype content_block = Text string | ThemeText string string string

text \<open>
  The loop of index.ts:165-169: upload the images one after the other, appending each
  media id to the accumulator.
\<close>

fun upload_images :: "world \<Rightarrow> string \<Rightarrow> string list \<Rightarrow> string list \<Rightarrow> string list io" where
  "upload_images w accessToken [] imageMediaIds = return_io imageMediaIds"
| "upload_images w accessToken (imagePath # rest) imageMediaIds =
     bind_io (uploadPermanentMaterial w accessToken imagePath ImageMaterial None) (\<lambda>mediaId.
       upload_images w accessToken rest (imageMediaIds @ [mediaId]))"

definition call_tool :: "world \<Rightarrow> (string \<rightharpoonup> string) \<Rightarrow> call_request \<Rightarrow> content_block list io" where
  "call_tool w env request =
     (if name request = ''publish_article'' then
        (let content = String_or_empty (argument arg_content request);
             themeId = String_or_empty (argument theme_id request)
         in
         bind_io
           (await (GetGzhContent content themeId ''solarized-light'' True True)
              (\<lambda>tr. getGzhContent w tr content themeId))
           (\<lambda>gzhContent.
              let title = (case gzh_title gzhContent of None \<Rightarrow> ''this is title'' | Some t \<Rightarrow> t);
                  cover = (case gzh_cover gzhContent of None \<Rightarrow> [] | Some c \<Rightarrow> c)
              in
              bind_io
                (await (PublishToDraft title (gzh_body gzhContent) cover)
                   (\<lambda>tr. publishToDraft w tr title (gzh_body gzhContent) cover))
                (\<lambda>response_media_id.
                   return_io [Text (txt_article_published @ response_media_id @ ''.'')])))
      else if name request = ''list_themes'' then
        return_io
          (map (\<lambda>theme. ThemeText (theme_ident theme) (theme_name theme) (theme_description theme))
             (themes w))
      else if name request = ''publish_image_message'' then
        (let appId = env ''WECHAT_APP_ID'';
             appSecret = env ''WECHAT_APP_SECRET''
         in
         if \<not> truthy_str appId \<or> \<not> truthy_str appSecret then throw ConfigError
         else
           let title = String_or_empty (argument arg_title request);
               content = String_or_empty (argument arg_content request);
               images = array_or_empty (argument images request)
           in
           if title = [] \<or> content = [] \<or> length images = 0 then throw ValidationError
           else
             bind_io (getAccessToken w (String_or_empty appId) (String_or_empty appSecret))
               (\<lambda>accessToken.
             bind_io (upload_images w accessToken images [])
               (\<lambda>imageMediaIds.
             bind_io (publishImageMessageToDraft w accessToken title content imageMediaIds)
               (\<lambda>mediaId.
             return_io [Text (txt_image_published @ mediaId)]))))
      else throw UnknownToolError)"

subsection \<open>Notions of the specification\<close>

text \<open>The final segment of a path: what follows its last slash.\<close>

definition final_segment :: "string \<Rightarrow> string" where
  "final_segment p = rev (takeWhile (\<lambda>c. c \<noteq> CHR ''/'') (rev p))"

text \<open>
  \<open>uploads_succeed w tok tr paths ids tr'\<close>: starting from the trace \<open>tr\<close>, the images
  \<open>paths\<close> are uploaded one after the other, every upload succeeds, the i-th upload
  returns the i-th media id of \<open>ids\<close>, and \<open>tr'\<close> is the trace after the last one.
\<close>

inductive uploads_succeed ::
  "world \<Rightarrow> string \<Rightarrow> event list \<Rightarrow> string list \<Rightarrow> string list \<Rightarrow> event list \<Rightarrow> bool"
  for w :: world and tok :: string where
  no_image: "uploads_succeed w tok tr [] [] tr"
| next_image:
    "uploadPermanentMaterial w tok p ImageMaterial None tr = (Inr m, tr1) \<Longrightarrow>
     uploads_succeed w tok tr1 ps ms tr2 \<Longrightarrow>
     uploads_succeed w tok tr (p # ps) (m # ms) tr2"

subsection \<open>Example worlds\<close>

text \<open>
  Concrete worlds to run the router in. The platform answers from the request alone;
  every local file exists; the path of a URL of the plain shape
  \<^verbatim>\<open>scheme://host/path\<close> is what follows the host. The examples carry safe
  integers only, so the text of other numbers is never asked for.
\<close>

definition no_data :: wx_data where
  "no_data =
     \<lparr>errcode = None, errmsg = None, access_token = None, expires_in = None,
      media_id = None, url = None\<rparr>"

definition json_response :: "nat \<Rightarrow> wx_data \<Rightarrow> http_response" where
  "json_response st d = \<lparr>status = st, body = Some ''{}'', json = Inr d\<rparr>"

definition example_pathname :: "string \<Rightarrow> string + string" where
  "example_pathname u =
     (let rest = (if startsWith u ''https://'' then drop 8 u
                  else if startsWith u ''http://'' then drop 7 u else u);
          p = dropWhile (\<lambda>c. c \<noteq> CHR ''/'') rest
      in Inr (if p = [] then ''/'' else p))"

definition example_world :: "(request \<Rightarrow> string + http_response) \<Rightarrow> world" where
  "example_world answer =
     \<lparr>fetch = (\<lambda>tr req. answer req),
      fileFromPath = (\<lambda>tr p. Inr (File p)),
      getGzhContent = (\<lambda>tr c t. Inr \<lparr>gzh_title = None, gzh_cover = None, gzh_body = c\<rparr>),
      publishToDraft = (\<lambda>tr t c cover. Inr ''ARTICLE1''),
      pathname = example_pathname,
      basename = final_segment,
      themes = [],
      number_text = (\<lambda>n. ''1e+21'')\<rparr>"

text \<open>
  A platform that issues the token \<open>TOKEN\<close>, serves every other URL with the bytes
  \<open>PNG\<close>, rejects the material named \<open>b.jpg\<close> with error code 45009 and stores every other
  one under \<open>MID:\<close> followed by its file name, and stores every draft as \<open>DRAFT1\<close>.
\<close>

fun platform :: "request \<Rightarrow> string + http_response" where
  "platform (GET u) =
     (if startsWith u ''https://api.weixin.qq.com/''
      then Inr (json_response 200 (no_data\<lparr>access_token := Some ''TOKEN'', expires_in := Some 7200\<rparr>))
      else Inr \<lparr>status = 200, body = Some ''PNG'', json = Inl ''Unexpected token''\<rparr>)"
| "platform (POST_form u []) = Inr (json_response 200 (no_data\<lparr>errcode := Some 41005\<rparr>))"
| "platform (POST_form u (media f filename # more_fields)) =
     (if filename = ''b.jpg''
      then Inr (json_response 200 (no_data\<lparr>errcode := Some 45009\<rparr>))
      else Inr (json_response 200 (no_data\<lparr>media_id := Some (''MID:'' @ filename)\<rparr>)))"
| "platform (POST_form u (description_field d # more_fields)) =
     Inr (json_response 200 (no_data\<lparr>errcode := Some 41005\<rparr>))"
| "platform (POST_json u b) = Inr (json_response 200 (no_data\<lparr>media_id := Some ''DRAFT1''\<rparr>))"

text \<open>A platform that gives the same answer to every request.\<close>

definition always :: "http_response \<Rightarrow> request \<Rightarrow> string + http_response" where
  "always r req = Inr r"

definition credentials :: "string \<rightharpoonup> string" where
  "credentials = [''WECHAT_APP_ID'' \<mapsto> ''wx1'', ''WECHAT_APP_SECRET'' \<mapsto> ''s3'']"

definition image_message :: "string option \<Rightarrow> string option \<Rightarrow> string list option \<Rightarrow> call_request" where
  "image_message t c imgs =
     \<lparr>name = ''publish_image_message'',
      arguments = Some \<lparr>arg_content = c, theme_id = None, arg_title = t, images = imgs\<rparr>\<rparr>"

subsection \<open>The two halves of the upload\<close>

text \<open>
  \<open>uploadPermanentMaterial\<close> first resolves the source into a file name and a file
  (wechat-api.ts:103-122) and then submits the form (wechat-api.ts:124-164). The halves
  are named here for the proofs; \<open>uploadPermanentMaterial_halves\<close> shows that the
  function is their composition.
\<close>

definition resolve_source :: "world \<Rightarrow> string \<Rightarrow> material_type \<Rightarrow> (string \<times> file_object) io" where
  "resolve_source w filePath type =
     (let defaultFilename = (if type = VideoMaterial then ''video.mp4'' else ''image.jpg'') in
      if startsWith filePath ''http://'' \<or> startsWith filePath ''https://''
      then
        bind_io (await_fetch w (GET filePath)) (\<lambda>response.
          if \<not> ok response \<or> body response = None
          then throw (DownloadError filePath)
          else
            bind_io (settle (pathname w filePath)) (\<lambda>urlPath.
              return_io
                (or_default (pop (split CHR ''/'' urlPath)) defaultFilename,
                 Blob (text_of response))))
      else
        bind_io (await (FileFromPath filePath) (\<lambda>tr. fileFromPath w tr filePath))
          (\<lambda>file. return_io (basename w filePath, file)))"

definition description_fields :: "material_type \<Rightarrow> description option \<Rightarrow> form_field list" where
  "description_fields type description =
     (case description of
        None \<Rightarrow> []
      | Some d \<Rightarrow> if type = VideoMaterial then [description_field d] else [])"

definition submit_material ::
  "world \<Rightarrow> string \<Rightarrow> material_type \<Rightarrow> description option \<Rightarrow> string \<Rightarrow> file_object \<Rightarrow> string io" where
  "submit_material w accessToken type description filename file =
     (let form = media file filename # description_fields type description;
          url = material_url accessToken type
      in
      bind_io (await_fetch w (POST_form url form)) (\<lambda>response.
        if \<not> ok response
        then throw (UploadStatusError (status response) (text_of response))
        else
          bind_io (settle (json response)) (\<lambda>data.
            if truthy_num (errcode data)
            then throw (UploadError (errmsg_or_errcode w (errmsg data) (errcode data)))
            else if \<not> truthy_str (media_id data)
            then throw UploadMediaIdMissing
            else return_io (String_or_empty (media_id data)))))"

text \<open>The default file name of a kind (wechat-api.ts:104).\<close>

definition default_filename :: "material_type \<Rightarrow> string" where
  "default_filename type = (if type = VideoMaterial then ''video.mp4'' else ''image.jpg'')"

text \<open>A call of the draft endpoint.\<close>

fun is_draft_call :: "event \<Rightarrow> bool" where
  "is_draft_call (Fetch (POST_json u b)) = True"
| "is_draft_call ev = False"

section \<open>Properties\<close>

subsection \<open>Auxiliary facts\<close>

lemmas number_defs =
  errmsg_or_errcode_def String_of_number_def safe_integer_def decimal_def digits.simps

lemmas io_defs = return_io_def throw_def bind_io_def await_def settle_def await_fetch_def

lemma startsWith_prefix: "startsWith s p = prefix p s"
proof
  assume "startsWith s p"
  then have "s = p @ drop (length p) s"
    using append_take_drop_id [of "length p" s] by (simp add: startsWith_def)
  then show "prefix p s" by (rule prefixI)
next
  assume "prefix p s"
  then show "startsWith s p" by (auto simp: startsWith_def prefix_def)
qed

lemma split_no_separator: "sep \<notin> set s \<Longrightarrow> split sep s = [s]"
  by (induction s) auto

lemma split_at_last_separator:
  "sep \<notin> set b \<Longrightarrow> \<exists>p q qs. split sep (a @ sep # b) = p # q # qs \<and> last (q # qs) = b"
proof (induction a)
  case Nil
  then show ?case by (simp add: split_no_separator)
next
  case (Cons x a)
  from Cons.IH [OF Cons.prems] obtain p q qs
    where "split sep (a @ sep # b) = p # q # qs" and "last (q # qs) = b" by blast
  then show ?case by (cases "x = sep") simp_all
qed

lemma takeWhile_rev_all: "sep \<notin> set s \<Longrightarrow> takeWhile (\<lambda>c. c \<noteq> sep) (rev s) = rev s"
  by (rule takeWhile_eq_all_conv [THEN iffD2]) auto

lemma final_segment_no_slash: "CHR ''/'' \<notin> set s \<Longrightarrow> final_segment s = s"
  by (simp add: final_segment_def takeWhile_rev_all)

lemma final_segment_after_slash:
  "CHR ''/'' \<notin> set b \<Longrightarrow> final_segment (a @ CHR ''/'' # b) = b"
  by (simp add: final_segment_def takeWhile_tail takeWhile_rev_all)

lemma split_last: "split CHR ''/'' s \<noteq> [] \<and> last (split CHR ''/'' s) = final_segment s"
proof (cases "CHR ''/'' \<in> set s")
  case False
  then show ?thesis by (simp add: split_no_separator final_segment_no_slash)
next
  case True
  then obtain a b where s: "s = a @ CHR ''/'' # b" and b: "CHR ''/'' \<notin> set b"
    by (auto dest: split_list_last)
  from split_at_last_separator [OF b, of a] obtain p q qs
    where "split CHR ''/'' (a @ CHR ''/'' # b) = p # q # qs" and "last (q # qs) = b" by blast
  with s b show ?thesis by (simp add: final_segment_after_slash)
qed

lemma pop_split: "pop (split CHR ''/'' p) = Some (final_segment p)"
  using split_last [of p] by (simp add: pop_def)

lemma getAccessToken_answered:
  assumes "fetch w tr (GET (token_url appId appSecret)) = Inr r" and "json r = Inr d"
  shows "getAccessToken w appId appSecret tr =
           (if truthy_num (errcode d)
            then Inl (CredentialError (errmsg_or_errcode w (errmsg d) (errcode d)))
            else if \<not> truthy_str (access_token d) then Inl CredentialTokenMissing
            else Inr (String_or_empty (access_token d)),
            tr @ [Fetch (GET (token_url appId appSecret))])"
  using assms by (simp add: getAccessToken_def io_defs Let_def)

lemma publishImageMessageToDraft_answered:
  assumes "fetch w tr (POST_json (draft_url tok) (draft_request_body t c ids)) = Inr r"
    and "json r = Inr d"
  shows "publishImageMessageToDraft w tok t c ids tr =
           (if truthy_num (errcode d)
            then Inl (DraftError (errmsg_or_errcode w (errmsg d) (errcode d)))
            else if \<not> truthy_str (media_id d) then Inl DraftMediaIdMissing
            else Inr (String_or_empty (media_id d)),
            tr @ [Fetch (POST_json (draft_url tok) (draft_request_body t c ids))])"
  using assms by (simp add: publishImageMessageToDraft_def io_defs Let_def)

lemma publishImageMessageToDraft_trace:
  "snd (publishImageMessageToDraft w tok t c ids tr) =
     tr @ [Fetch (POST_json (draft_url tok) (draft_request_body t c ids))]"
  by (simp add: publishImageMessageToDraft_def io_defs Let_def split: sum.splits)

lemma upload_images_succeed:
  "uploads_succeed w tok tr ps ms tr' \<Longrightarrow> upload_images w tok ps acc tr = (Inr (acc @ ms), tr')"
proof (induction arbitrary: acc rule: uploads_succeed.induct)
  case (no_image tr)
  show ?case by (simp add: return_io_def)
next
  case (next_image p tr m tr1 ps ms tr2)
  from next_image.hyps(1) next_image.IH [of "acc @ [m]"] show ?case
    by (simp add: bind_io_def)
qed

lemma uploads_succeed_length: "uploads_succeed w tok tr ps ms tr' \<Longrightarrow> length ms = length ps"
  by (induction rule: uploads_succeed.induct) simp_all

lemma upload_images_fail:
  "uploads_succeed w tok tr pre ms tr2 \<Longrightarrow>
   uploadPermanentMaterial w tok p ImageMaterial None tr2 = (Inl e, tr3) \<Longrightarrow>
   upload_images w tok (pre @ p # post) acc tr = (Inl e, tr3)"
proof (induction arbitrary: acc rule: uploads_succeed.induct)
  case (no_image tr)
  then show ?case by (simp add: bind_io_def)
next
  case (next_image p' tr m tr1 ps ms tr2)
  from next_image.hyps(1) next_image.IH [OF next_image.prems, of "acc @ [m]"] show ?case
    by (simp add: bind_io_def)
qed

lemma uploadPermanentMaterial_halves:
  "uploadPermanentMaterial w tok p ty desc =
     bind_io (resolve_source w p ty) (\<lambda>(filename, file). submit_material w tok ty desc filename file)"
  unfolding uploadPermanentMaterial_def resolve_source_def submit_material_def
    description_fields_def Let_def
  by (rule refl)

lemma resolve_source_trace:
  "snd (resolve_source w p ty tr) =
     tr @ [if startsWith p ''http://'' \<or> startsWith p ''https://''
           then Fetch (GET p) else FileFromPath p]"
  by (simp add: resolve_source_def io_defs Let_def split: sum.splits)

lemma submit_material_trace:
  "snd (submit_material w tok ty desc fn f tr) =
     tr @ [Fetch (POST_form (material_url tok ty) (media f fn # description_fields ty desc))]"
  by (simp add: submit_material_def io_defs Let_def split: sum.splits)

lemma upload_trace_shape:
  "snd (uploadPermanentMaterial w tok p ty desc tr) =
     tr @ [if startsWith p ''http://'' \<or> startsWith p ''https://''
           then Fetch (GET p) else FileFromPath p] \<or>
   (\<exists>form. snd (uploadPermanentMaterial w tok p ty desc tr) =
     tr @ [if startsWith p ''http://'' \<or> startsWith p ''https://''
           then Fetch (GET p) else FileFromPath p,
           Fetch (POST_form (material_url tok ty) form)])"
proof -
  obtain res tr1 where r: "resolve_source w p ty tr = (res, tr1)"
    by (cases "resolve_source w p ty tr")
  with resolve_source_trace [of w p ty tr]
  have tr1: "tr1 = tr @ [if startsWith p ''http://'' \<or> startsWith p ''https://''
                         then Fetch (GET p) else FileFromPath p]" by simp
  show ?thesis
  proof (cases res)
    case (Inl e)
    with r tr1 show ?thesis by (simp add: uploadPermanentMaterial_halves bind_io_def)
  next
    case (Inr nf)
    obtain fn f where nf: "nf = (fn, f)" by (cases nf)
    from submit_material_trace [of w tok ty desc fn f tr1] r tr1 Inr nf
    show ?thesis by (simp add: uploadPermanentMaterial_halves bind_io_def)
  qed
qed

lemma String_or_empty_Nil: "(String_or_empty x = []) = (\<not> truthy_str x)"
  by (cases x) simp_all

lemma getAccessToken_trace:
  "snd (getAccessToken w a s tr) = tr @ [Fetch (GET (token_url a s))]"
  by (simp add: getAccessToken_def io_defs Let_def split: sum.splits)

lemma upload_events:
  "\<exists>evs. snd (uploadPermanentMaterial w tok p ty desc tr) = tr @ evs \<and>
     (\<forall>ev \<in> set evs. \<not> is_draft_call ev)"
proof -
  define first where
    "first = (if startsWith p ''http://'' \<or> startsWith p ''https://''
              then Fetch (GET p) else FileFromPath p)"
  have first: "\<not> is_draft_call first" by (simp add: first_def)
  from upload_trace_shape [of w tok p ty desc tr]
  consider "snd (uploadPermanentMaterial w tok p ty desc tr) = tr @ [first]"
    | form where "snd (uploadPermanentMaterial w tok p ty desc tr) =
        tr @ [first, Fetch (POST_form (material_url tok ty) form)]"
    unfolding first_def by blast
  then show ?thesis
  proof cases
    case 1
    with first show ?thesis by (intro exI [of _ "[first]"]) simp
  next
    case 2
    with first show ?thesis
      by (intro exI [of _ "[first, Fetch (POST_form (material_url tok ty) form)]"]) simp
  qed
qed

lemma uploads_succeed_events:
  "uploads_succeed w tok tr ps ms tr' \<Longrightarrow>
     \<exists>evs. tr' = tr @ evs \<and> (\<forall>ev \<in> set evs. \<not> is_draft_call ev)"
proof (induction rule: uploads_succeed.induct)
  case (no_image tr)
  show ?case by simp
next
  case (next_image p tr m tr1 ps ms tr2)
  from upload_events [of w tok p ImageMaterial None tr] next_image.hyps(1)
  obtain evs1 where 1: "tr1 = tr @ evs1" "\<forall>ev \<in> set evs1. \<not> is_draft_call ev" by auto
  from next_image.IH obtain evs2
    where 2: "tr2 = tr1 @ evs2" "\<forall>ev \<in> set evs2. \<not> is_draft_call ev" by blast
  from 1 2 show ?case by (intro exI [of _ "evs1 @ evs2"]) auto
qed

lemma upload_images_events:
  "\<exists>evs. snd (upload_images w tok ps acc tr) = tr @ evs"
proof (induction ps arbitrary: acc tr)
  case Nil
  show ?case by (simp add: return_io_def)
next
  case (Cons p ps)
  obtain res tr1 where u: "uploadPermanentMaterial w tok p ImageMaterial None tr = (res, tr1)"
    by (cases "uploadPermanentMaterial w tok p ImageMaterial None tr")
  with upload_events [of w tok p ImageMaterial None tr] obtain evs1 where 1: "tr1 = tr @ evs1"
    by auto
  show ?case
  proof (cases res)
    case (Inl e)
    with u 1 show ?thesis by (simp add: bind_io_def)
  next
    case (Inr m)
    from Cons.IH [of "acc @ [m]" tr1] obtain evs2
      where "snd (upload_images w tok ps (acc @ [m]) tr1) = tr1 @ evs2" by blast
    with u 1 Inr show ?thesis by (simp add: bind_io_def)
  qed
qed

text \<open>The run of a call of \<open>publish_image_message\<close> that passes both checks.\<close>

lemma call_tool_publish_image_message:
  assumes "name request = ''publish_image_message''"
    and "env ''WECHAT_APP_ID'' = Some appId" and "appId \<noteq> []"
    and "env ''WECHAT_APP_SECRET'' = Some appSecret" and "appSecret \<noteq> []"
    and "argument arg_title request = Some t" and "t \<noteq> []"
    and "argument arg_content request = Some c" and "c \<noteq> []"
    and "argument images request = Some paths" and "paths \<noteq> []"
  shows "call_tool w env request =
           bind_io (getAccessToken w appId appSecret) (\<lambda>accessToken.
           bind_io (upload_images w accessToken paths []) (\<lambda>imageMediaIds.
           bind_io (publishImageMessageToDraft w accessToken t c imageMediaIds) (\<lambda>mediaId.
           return_io [Text (txt_image_published @ mediaId)])))"
  using assms by (simp add: call_tool_def Let_def)

lemma bind_return_trace: "snd (bind_io m (\<lambda>x. return_io (g x)) tr) = snd (m tr)"
  by (simp add: bind_io_def return_io_def split: prod.splits sum.splits)

lemma call_tool_token_first:
  assumes "name request = ''publish_image_message''"
    and "env ''WECHAT_APP_ID'' = Some appId" and "appId \<noteq> []"
    and "env ''WECHAT_APP_SECRET'' = Some appSecret" and "appSecret \<noteq> []"
    and "argument arg_title request = Some t" and "t \<noteq> []"
    and "argument arg_content request = Some c" and "c \<noteq> []"
    and "argument images request = Some paths" and "paths \<noteq> []"
  shows "\<exists>evs. snd (call_tool w env request tr) =
           tr @ Fetch (GET (token_url appId appSecret)) # evs"
proof -
  note run = call_tool_publish_image_message [OF assms]
  obtain res tr1 where g: "getAccessToken w appId appSecret tr = (res, tr1)"
    by (cases "getAccessToken w appId appSecret tr")
  with getAccessToken_trace [of w appId appSecret tr]
  have tr1: "tr1 = tr @ [Fetch (GET (token_url appId appSecret))]" by simp
  show ?thesis
  proof (cases res)
    case (Inl e)
    with g tr1 show ?thesis by (simp add: run bind_io_def)
  next
    case tok: (Inr tok)
    obtain res2 tr2 where u: "upload_images w tok paths [] tr1 = (res2, tr2)"
      by (cases "upload_images w tok paths [] tr1")
    with upload_images_events [of w tok paths "[]" tr1] obtain evs where tr2: "tr2 = tr1 @ evs"
      by auto
    show ?thesis
    proof (cases res2)
      case (Inl e)
      with g tok u tr1 tr2 show ?thesis by (simp add: run bind_io_def)
    next
      case (Inr ids)
      have "snd (call_tool w env request tr) =
              snd (bind_io (publishImageMessageToDraft w tok t c ids)
                     (\<lambda>mediaId. return_io [Text (txt_image_published @ mediaId)]) tr2)"
        using g tok u Inr by (simp add: run bind_io_def)
      also have "\<dots> = tr2 @ [Fetch (POST_json (draft_url tok) (draft_request_body t c ids))]"
        by (simp only: bind_return_trace publishImageMessageToDraft_trace)
      finally show ?thesis using tr1 tr2 by simp
    qed
  qed
qed

lemma submit_material_answered:
  assumes "fetch w tr (POST_form (material_url tok ty) (media f fn # description_fields ty desc)) = Inr r"
  shows "submit_material w tok ty desc fn f tr =
           (if \<not> ok r then Inl (UploadStatusError (status r) (text_of r))
            else case json r of
              Inl m \<Rightarrow> Inl (Rejected m)
            | Inr d \<Rightarrow>
                if truthy_num (errcode d)
                then Inl (UploadError (errmsg_or_errcode w (errmsg d) (errcode d)))
                else if \<not> truthy_str (media_id d) then Inl UploadMediaIdMissing
                else Inr (String_or_empty (media_id d)),
            tr @ [Fetch (POST_form (material_url tok ty) (media f fn # description_fields ty desc))])"
  using assms by (simp add: submit_material_def io_defs Let_def split: sum.splits)

lemma resolve_source_local:
  assumes "\<not> (prefix ''http://'' p \<or> prefix ''https://'' p)" and "fileFromPath w tr p = Inr f"
  shows "resolve_source w p ty tr = (Inr (basename w p, f), tr @ [FileFromPath p])"
  using assms by (simp add: resolve_source_def io_defs Let_def startsWith_prefix)

lemma resolve_source_remote:
  assumes "prefix ''http://'' p \<or> prefix ''https://'' p" and "fetch w tr (GET p) = Inr r"
    and "ok r" and "body r = Some b" and "pathname w p = Inr path"
  shows "resolve_source w p ty tr =
           (Inr (if final_segment path = [] then default_filename ty else final_segment path, Blob b),
            tr @ [Fetch (GET p)])"
  using assms
  by (simp add: resolve_source_def io_defs Let_def startsWith_prefix pop_split text_of_def
      default_filename_def)

text \<open>What the upload of a local file gives, from the answers of the world alone.\<close>

lemma upload_local_answered:
  assumes "\<not> (prefix ''http://'' p \<or> prefix ''https://'' p)" and "fileFromPath w tr p = Inr f"
    and "fetch w (tr @ [FileFromPath p])
           (POST_form (material_url tok ty) (media f (basename w p) # description_fields ty desc)) = Inr r"
  shows "uploadPermanentMaterial w tok p ty desc tr =
           (if \<not> ok r then Inl (UploadStatusError (status r) (text_of r))
            else case json r of
              Inl m \<Rightarrow> Inl (Rejected m)
            | Inr d \<Rightarrow>
                if truthy_num (errcode d)
                then Inl (UploadError (errmsg_or_errcode w (errmsg d) (errcode d)))
                else if \<not> truthy_str (media_id d) then Inl UploadMediaIdMissing
                else Inr (String_or_empty (media_id d)),
            tr @ [FileFromPath p,
                  Fetch (POST_form (material_url tok ty)
                    (media f (basename w p) # description_fields ty desc))])"
  by (simp add: uploadPermanentMaterial_halves bind_io_def
      resolve_source_local [OF assms(1,2)] submit_material_answered [OF assms(3)])

lemma upload_remote_answered:
  assumes "prefix ''http://'' p \<or> prefix ''https://'' p" and "fetch w tr (GET p) = Inr r0"
    and "ok r0" and "body r0 = Some b" and "pathname w p = Inr path"
    and "fn = (if final_segment path = [] then default_filename ty else final_segment path)"
    and "fetch w (tr @ [Fetch (GET p)])
           (POST_form (material_url tok ty) (media (Blob b) fn # description_fields ty desc)) = Inr r"
  shows "uploadPermanentMaterial w tok p ty desc tr =
           (if \<not> ok r then Inl (UploadStatusError (status r) (text_of r))
            else case json r of
              Inl m \<Rightarrow> Inl (Rejected m)
            | Inr d \<Rightarrow>
                if truthy_num (errcode d)
                then Inl (UploadError (errmsg_or_errcode w (errmsg d) (errcode d)))
                else if \<not> truthy_str (media_id d) then Inl UploadMediaIdMissing
                else Inr (String_or_empty (media_id d)),
            tr @ [Fetch (GET p),
                  Fetch (POST_form (material_url tok ty)
                    (media (Blob b) fn # description_fields ty desc))])"
  using assms(6)
    resolve_source_remote [OF assms(1-5), of ty]
    submit_material_answered [OF assms(7)]
  by (simp add: uploadPermanentMaterial_halves bind_io_def)

text \<open>The definitions to unfold when a concrete run is evaluated.\<close>

lemmas run_defs =
  getAccessToken_def uploadPermanentMaterial_def publishImageMessageToDraft_def io_defs
  example_world_def json_response_def no_data_def always_def example_pathname_def
  token_url_def material_url_def draft_url_def startsWith_def ok_def text_of_def
  pop_def final_segment_def Let_def

subsection \<open>Claims\<close>

text \<open>
  C1 (as amended). A call of \<open>publish_image_message\<close> with invalid arguments (title
  missing or empty, content missing or empty, images missing or empty) fails before any
  outside call is made: the trace is unchanged. The router reads the two environment
  variables first and validates the arguments second, so the failure is the
  ValidationError when both variables are set and non-empty, and the ConfigError when
  either is unset or empty.
\<close>

theorem invalid_arguments_rejected_before_network:
  assumes "name request = ''publish_image_message''"
    and "\<not> truthy_str (argument arg_title request) \<or>
         \<not> truthy_str (argument arg_content request) \<or>
         array_or_empty (argument images request) = []"
  shows "call_tool w env request tr =
           (if truthy_str (env ''WECHAT_APP_ID'') \<and> truthy_str (env ''WECHAT_APP_SECRET'')
            then Inl ValidationError else Inl ConfigError, tr)"
  using assms by (auto simp: call_tool_def Let_def throw_def String_or_empty_Nil)

theorem invalid_arguments_rejected_before_network_witness:
  "call_tool (example_world platform) credentials
     (image_message (Some ''T'') None (Some [''/local/a.jpg''])) [] = (Inl ValidationError, [])
   \<and> call_tool (example_world platform) Map.empty
     (image_message (Some ''T'') (Some ''C'') None) [] = (Inl ConfigError, [])"
proof -
  have n: "name (image_message t c i) = ''publish_image_message''" for t c i
    by (simp add: image_message_def)
  have 1: "\<not> truthy_str (argument arg_title (image_message (Some ''T'') None (Some [''/local/a.jpg'']))) \<or>
         \<not> truthy_str (argument arg_content (image_message (Some ''T'') None (Some [''/local/a.jpg'']))) \<or>
         array_or_empty (argument images (image_message (Some ''T'') None (Some [''/local/a.jpg'']))) = []"
    by (simp add: image_message_def argument_def)
  have 2: "\<not> truthy_str (argument arg_title (image_message (Some ''T'') (Some ''C'') None)) \<or>
         \<not> truthy_str (argument arg_content (image_message (Some ''T'') (Some ''C'') None)) \<or>
         array_or_empty (argument images (image_message (Some ''T'') (Some ''C'') None)) = []"
    by (simp add: image_message_def argument_def)
  from invalid_arguments_rejected_before_network [OF n 1, of "example_world platform" credentials "[]"]
    invalid_arguments_rejected_before_network [OF n 2, of "example_world platform" Map.empty "[]"]
  show ?thesis by (simp add: credentials_def)
qed

text \<open>
  C1 as stated fails: with both variables unset, an invocation with an empty image list
  yields the ConfigError, not the ValidationError.
\<close>

theorem validation_after_config_counterexample:
  "fst (call_tool (example_world platform) Map.empty
          (image_message (Some ''T'') (Some ''C'') (Some [])) []) = Inl ConfigError
   \<and> fst (call_tool (example_world platform) Map.empty
          (image_message (Some ''T'') (Some ''C'') (Some [])) []) \<noteq> Inl ValidationError"
  by (simp add: call_tool_def image_message_def Let_def throw_def)

text \<open>
  C2. When the call of \<open>publish_image_message\<close> passes both checks, the token is obtained
  and every upload of the non-empty image list succeeds, one after the other, the i-th
  upload returning the i-th media id of \<open>ids\<close>, then there is one media id for each
  input image, and the draft payload that is submitted next carries in its
  \<open>image_list\<close> exactly one \<open>image_media_id\<close> entry for each of them, in the input
  order.
\<close>

theorem image_list_in_upload_order:
  assumes "name request = ''publish_image_message''"
    and "env ''WECHAT_APP_ID'' = Some appId" and "appId \<noteq> []"
    and "env ''WECHAT_APP_SECRET'' = Some appSecret" and "appSecret \<noteq> []"
    and "argument arg_title request = Some t" and "t \<noteq> []"
    and "argument arg_content request = Some c" and "c \<noteq> []"
    and "argument images request = Some paths" and "paths \<noteq> []"
    and "getAccessToken w appId appSecret tr = (Inr tok, tr1)"
    and "uploads_succeed w tok tr1 paths ids tr2"
  shows "length ids = length paths \<and>
         snd (call_tool w env request tr) =
           tr2 @ [Fetch (POST_json (draft_url tok)
             \<lparr>articles =
                [\<lparr>article_type = ''newspic'', title = t, content = c,
                  image_list = map (\<lambda>m. \<lparr>image_media_id = m\<rparr>) ids,
                  need_open_comment = 0, only_fans_can_comment = 0\<rparr>]\<rparr>)]"
proof
  from assms(13) show "length ids = length paths" by (rule uploads_succeed_length)
next
  from assms(13) have "upload_images w tok paths [] tr1 = (Inr ids, tr2)"
    using upload_images_succeed [of w tok tr1 paths ids tr2 "[]"] by simp
  with assms(12)
  have "snd (call_tool w env request tr) =
          snd (bind_io (publishImageMessageToDraft w tok t c ids)
                 (\<lambda>mediaId. return_io [Text (txt_image_published @ mediaId)]) tr2)"
    by (simp add: call_tool_publish_image_message [OF assms(1-11)] bind_io_def)
  also have "\<dots> = snd (publishImageMessageToDraft w tok t c ids tr2)"
    by (simp add: bind_io_def return_io_def split: prod.splits sum.splits)
  also have "\<dots> = tr2 @ [Fetch (POST_json (draft_url tok) (draft_request_body t c ids))]"
    by (rule publishImageMessageToDraft_trace)
  finally show "snd (call_tool w env request tr) =
           tr2 @ [Fetch (POST_json (draft_url tok)
             \<lparr>articles =
                [\<lparr>article_type = ''newspic'', title = t, content = c,
                  image_list = map (\<lambda>m. \<lparr>image_media_id = m\<rparr>) ids,
                  need_open_comment = 0, only_fans_can_comment = 0\<rparr>]\<rparr>)]"
    by (simp add: draft_request_body_def)
qed

theorem image_list_in_upload_order_witness:
  "snd (call_tool (example_world platform) credentials
          (image_message (Some ''T'') (Some ''C'') (Some [''/local/a.jpg'', ''https://x/y/pic.png''])) []) =
     [Fetch (GET (token_url ''wx1'' ''s3'')),
      FileFromPath ''/local/a.jpg'',
      Fetch (POST_form (material_url ''TOKEN'' ImageMaterial) [media (File ''/local/a.jpg'') ''a.jpg'']),
      Fetch (GET ''https://x/y/pic.png''),
      Fetch (POST_form (material_url ''TOKEN'' ImageMaterial) [media (Blob ''PNG'') ''pic.png'']),
      Fetch (POST_json (draft_url ''TOKEN'')
        \<lparr>articles =
           [\<lparr>article_type = ''newspic'', title = ''T'', content = ''C'',
             image_list = [\<lparr>image_media_id = ''MID:a.jpg''\<rparr>, \<lparr>image_media_id = ''MID:pic.png''\<rparr>],
             need_open_comment = 0, only_fans_can_comment = 0\<rparr>]\<rparr>)]"
proof -
  let ?w = "example_world platform"
  let ?req = "image_message (Some ''T'') (Some ''C'') (Some [''/local/a.jpg'', ''https://x/y/pic.png''])"
  let ?t1 = "[Fetch (GET (token_url ''wx1'' ''s3''))]"
  let ?t2 = "?t1 @ [FileFromPath ''/local/a.jpg'',
      Fetch (POST_form (material_url ''TOKEN'' ImageMaterial) [media (File ''/local/a.jpg'') ''a.jpg''])]"
  let ?t3 = "?t2 @ [Fetch (GET ''https://x/y/pic.png''),
      Fetch (POST_form (material_url ''TOKEN'' ImageMaterial) [media (Blob ''PNG'') ''pic.png''])]"
  have tok: "getAccessToken ?w ''wx1'' ''s3'' [] = (Inr ''TOKEN'', ?t1)"
    by (simp add: run_defs)
  have u1: "uploadPermanentMaterial ?w ''TOKEN'' ''/local/a.jpg'' ImageMaterial None ?t1 = (Inr ''MID:a.jpg'', ?t2)"
    by (simp add: run_defs)
  have u2: "uploadPermanentMaterial ?w ''TOKEN'' ''https://x/y/pic.png'' ImageMaterial None ?t2 = (Inr ''MID:pic.png'', ?t3)"
    by (simp add: run_defs)
  have ups: "uploads_succeed ?w ''TOKEN'' ?t1 [''/local/a.jpg'', ''https://x/y/pic.png''] [''MID:a.jpg'', ''MID:pic.png''] ?t3"
    by (rule next_image [OF u1 next_image [OF u2 no_image]])
  have "length [''MID:a.jpg'', ''MID:pic.png''] = length [''/local/a.jpg'', ''https://x/y/pic.png''] \<and>
    snd (call_tool ?w credentials ?req []) =
      ?t3 @ [Fetch (POST_json (draft_url ''TOKEN'')
        \<lparr>articles =
           [\<lparr>article_type = ''newspic'', title = ''T'', content = ''C'',
             image_list = map (\<lambda>m. \<lparr>image_media_id = m\<rparr>) [''MID:a.jpg'', ''MID:pic.png''],
             need_open_comment = 0, only_fans_can_comment = 0\<rparr>]\<rparr>)]"
    by (rule image_list_in_upload_order [OF _ _ _ _ _ _ _ _ _ _ _ tok ups])
       (simp_all add: image_message_def argument_def credentials_def)
  then show ?thesis by simp
qed

text \<open>
  C3. When the uploads of the images before the k-th succeed and the upload of the k-th
  fails with the error \<open>e\<close>, the invocation fails with \<open>e\<close> and its trace is the one
  that the failing upload left: at most the two calls of that upload follow the earlier
  uploads, nothing is attempted for the images after it, and the invocation makes no
  call of the draft endpoint.
\<close>

theorem failed_upload_ends_invocation:
  assumes "name request = ''publish_image_message''"
    and "env ''WECHAT_APP_ID'' = Some appId" and "appId \<noteq> []"
    and "env ''WECHAT_APP_SECRET'' = Some appSecret" and "appSecret \<noteq> []"
    and "argument arg_title request = Some t" and "t \<noteq> []"
    and "argument arg_content request = Some c" and "c \<noteq> []"
    and "argument images request = Some (before @ p # after)"
    and "getAccessToken w appId appSecret tr = (Inr tok, tr1)"
    and "uploads_succeed w tok tr1 before ids tr2"
    and "uploadPermanentMaterial w tok p ImageMaterial None tr2 = (Inl e, tr3)"
  shows "call_tool w env request tr = (Inl e, tr3) \<and>
         (\<exists>evs. tr3 = tr2 @ evs \<and> length evs \<le> 2) \<and>
         filter is_draft_call (drop (length tr) tr3) = []"
proof (intro conjI)
  have ne: "before @ p # after \<noteq> []" by simp
  from upload_images_fail [OF assms(12,13), of after "[]"] assms(11)
  show "call_tool w env request tr = (Inl e, tr3)"
    by (simp add: call_tool_publish_image_message [OF assms(1-10) ne] bind_io_def)
next
  from upload_trace_shape [of w tok p ImageMaterial None tr2] assms(13)
  show "\<exists>evs. tr3 = tr2 @ evs \<and> length evs \<le> 2" by auto
next
  from getAccessToken_trace [of w appId appSecret tr] assms(11)
  have 1: "tr1 = tr @ [Fetch (GET (token_url appId appSecret))]" by simp
  from uploads_succeed_events [OF assms(12)] obtain evs2
    where 2: "tr2 = tr1 @ evs2" "\<forall>ev \<in> set evs2. \<not> is_draft_call ev" by blast
  from upload_events [of w tok p ImageMaterial None tr2] assms(13) obtain evs3
    where 3: "tr3 = tr2 @ evs3" "\<forall>ev \<in> set evs3. \<not> is_draft_call ev" by auto
  from 1 2 3 show "filter is_draft_call (drop (length tr) tr3) = []"
    by (simp add: filter_empty_conv)
qed

theorem failed_upload_ends_invocation_witness:
  "call_tool (example_world platform) credentials
     (image_message (Some ''T'') (Some ''C'')
        (Some [''/local/a.jpg'', ''/local/b.jpg'', ''/local/c.jpg''])) [] =
     (Inl (UploadError ''45009''),
      [Fetch (GET (token_url ''wx1'' ''s3'')),
       FileFromPath ''/local/a.jpg'',
       Fetch (POST_form (material_url ''TOKEN'' ImageMaterial) [media (File ''/local/a.jpg'') ''a.jpg'']),
       FileFromPath ''/local/b.jpg'',
       Fetch (POST_form (material_url ''TOKEN'' ImageMaterial) [media (File ''/local/b.jpg'') ''b.jpg''])])"
proof -
  let ?w = "example_world platform"
  let ?req = "image_message (Some ''T'') (Some ''C'')
                (Some ([''/local/a.jpg''] @ ''/local/b.jpg'' # [''/local/c.jpg'']))"
  let ?t1 = "[Fetch (GET (token_url ''wx1'' ''s3''))]"
  let ?t2 = "?t1 @ [FileFromPath ''/local/a.jpg'',
      Fetch (POST_form (material_url ''TOKEN'' ImageMaterial) [media (File ''/local/a.jpg'') ''a.jpg''])]"
  let ?t3 = "?t2 @ [FileFromPath ''/local/b.jpg'',
      Fetch (POST_form (material_url ''TOKEN'' ImageMaterial) [media (File ''/local/b.jpg'') ''b.jpg''])]"
  have tok: "getAccessToken ?w ''wx1'' ''s3'' [] = (Inr ''TOKEN'', ?t1)"
    by (simp add: run_defs)
  have u1: "uploadPermanentMaterial ?w ''TOKEN'' ''/local/a.jpg'' ImageMaterial None ?t1 = (Inr ''MID:a.jpg'', ?t2)"
    by (simp add: run_defs)
  have u2: "uploadPermanentMaterial ?w ''TOKEN'' ''/local/b.jpg'' ImageMaterial None ?t2 = (Inl (UploadError ''45009''), ?t3)"
    by (simp add: run_defs number_defs)
  have ups: "uploads_succeed ?w ''TOKEN'' ?t1 [''/local/a.jpg''] [''MID:a.jpg''] ?t2"
    by (rule next_image [OF u1 no_image])
  have "call_tool ?w credentials ?req [] = (Inl (UploadError ''45009''), ?t3) \<and>
         (\<exists>evs. ?t3 = ?t2 @ evs \<and> length evs \<le> 2) \<and>
         filter is_draft_call (drop (length ([]::event list)) ?t3) = []"
    by (rule failed_upload_ends_invocation
          [where t = "''T''" and c = "''C''", OF _ _ _ _ _ _ _ _ _ _ tok ups u2])
       (simp_all add: image_message_def argument_def credentials_def)
  then show ?thesis by simp
qed

text \<open>
  C4. What the three calls do with a non-success HTTP status. The token fetch and the
  draft add never look at the status: a response with a non-success status whose body
  carries no truthy \<open>errcode\<close> and carries the success field is accepted, and the call
  returns that field. The upload of a permanent material, their sibling, does test the
  status and fails on the same kind of response.
\<close>

theorem status_unchecked_in_token_and_draft:
  "(fetch w tr (GET (token_url appId appSecret)) = Inr r \<and> \<not> ok r \<and> json r = Inr d \<and>
      \<not> truthy_num (errcode d) \<and> access_token d = Some v \<and> v \<noteq> [] \<longrightarrow>
      getAccessToken w appId appSecret tr =
        (Inr v, tr @ [Fetch (GET (token_url appId appSecret))]))
   \<and> (fetch w tr (POST_json (draft_url tok) (draft_request_body t c ids)) = Inr r \<and> \<not> ok r \<and>
      json r = Inr d \<and> \<not> truthy_num (errcode d) \<and> media_id d = Some m \<and> m \<noteq> [] \<longrightarrow>
      publishImageMessageToDraft w tok t c ids tr =
        (Inr m, tr @ [Fetch (POST_json (draft_url tok) (draft_request_body t c ids))]))
   \<and> (\<not> (prefix ''http://'' p \<or> prefix ''https://'' p) \<and> fileFromPath w tr p = Inr f \<and>
      fetch w (tr @ [FileFromPath p])
        (POST_form (material_url tok ty) (media f (basename w p) # description_fields ty desc)) =
        Inr r \<and> \<not> ok r \<longrightarrow>
      uploadPermanentMaterial w tok p ty desc tr =
        (Inl (UploadStatusError (status r) (text_of r)),
         tr @ [FileFromPath p,
               Fetch (POST_form (material_url tok ty)
                 (media f (basename w p) # description_fields ty desc))]))"
proof (intro conjI impI)
  assume "fetch w tr (GET (token_url appId appSecret)) = Inr r \<and> \<not> ok r \<and> json r = Inr d \<and>
      \<not> truthy_num (errcode d) \<and> access_token d = Some v \<and> v \<noteq> []"
  then show "getAccessToken w appId appSecret tr =
        (Inr v, tr @ [Fetch (GET (token_url appId appSecret))])"
    by (simp add: getAccessToken_answered)
next
  assume "fetch w tr (POST_json (draft_url tok) (draft_request_body t c ids)) = Inr r \<and> \<not> ok r \<and>
      json r = Inr d \<and> \<not> truthy_num (errcode d) \<and> media_id d = Some m \<and> m \<noteq> []"
  then show "publishImageMessageToDraft w tok t c ids tr =
        (Inr m, tr @ [Fetch (POST_json (draft_url tok) (draft_request_body t c ids))])"
    by (simp add: publishImageMessageToDraft_answered)
next
  assume "\<not> (prefix ''http://'' p \<or> prefix ''https://'' p) \<and> fileFromPath w tr p = Inr f \<and>
      fetch w (tr @ [FileFromPath p])
        (POST_form (material_url tok ty) (media f (basename w p) # description_fields ty desc)) =
        Inr r \<and> \<not> ok r"
  then show "uploadPermanentMaterial w tok p ty desc tr =
        (Inl (UploadStatusError (status r) (text_of r)),
         tr @ [FileFromPath p,
               Fetch (POST_form (material_url tok ty)
                 (media f (basename w p) # description_fields ty desc))])"
    by (simp add: upload_local_answered)
qed

theorem status_unchecked_in_token_and_draft_witness:
  "getAccessToken
     (example_world (always (json_response 500
        (no_data\<lparr>access_token := Some ''TOKEN'', media_id := Some ''DRAFT1''\<rparr>))))
     ''wx1'' ''s3'' [] = (Inr ''TOKEN'', [Fetch (GET (token_url ''wx1'' ''s3''))])
   \<and> publishImageMessageToDraft
     (example_world (always (json_response 500
        (no_data\<lparr>access_token := Some ''TOKEN'', media_id := Some ''DRAFT1''\<rparr>))))
     ''TOKEN'' ''T'' ''C'' [''MID1''] [] =
       (Inr ''DRAFT1'',
        [Fetch (POST_json (draft_url ''TOKEN'') (draft_request_body ''T'' ''C'' [''MID1'']))])
   \<and> uploadPermanentMaterial
     (example_world (always (json_response 500
        (no_data\<lparr>access_token := Some ''TOKEN'', media_id := Some ''DRAFT1''\<rparr>))))
     ''TOKEN'' ''/local/a.jpg'' ImageMaterial None [] =
       (Inl (UploadStatusError 500 ''{}''),
        [FileFromPath ''/local/a.jpg'',
         Fetch (POST_form (material_url ''TOKEN'' ImageMaterial)
           [media (File ''/local/a.jpg'') ''a.jpg''])])"
proof -
  let ?d = "no_data\<lparr>access_token := Some ''TOKEN'', media_id := Some ''DRAFT1''\<rparr>"
  let ?r = "json_response 500 ?d"
  let ?w = "example_world (always ?r)"
  have a: "fetch ?w tr req = Inr ?r" for tr req
    by (simp add: example_world_def always_def)
  have j: "json ?r = Inr ?d" "\<not> ok ?r" "status ?r = 500" "text_of ?r = ''{}''"
    by (simp_all add: json_response_def ok_def text_of_def)
  have d: "\<not> truthy_num (errcode ?d)" "access_token ?d = Some ''TOKEN''"
    "media_id ?d = Some ''DRAFT1''"
    by (simp_all add: no_data_def)
  have l: "\<not> (prefix ''http://'' ''/local/a.jpg'' \<or> prefix ''https://'' ''/local/a.jpg'')"
    "fileFromPath ?w [] ''/local/a.jpg'' = Inr (File ''/local/a.jpg'')"
    "basename ?w ''/local/a.jpg'' = ''a.jpg''"
    "description_fields ImageMaterial None = []"
    by (simp_all add: example_world_def final_segment_def description_fields_def)
  from status_unchecked_in_token_and_draft
         [where w = ?w and tr = "[]" and appId = "''wx1''" and appSecret = "''s3''" and r = ?r
            and d = ?d and v = "''TOKEN''" and tok = "''TOKEN''" and t = "''T''" and c = "''C''"
            and ids = "[''MID1'']" and m = "''DRAFT1''" and p = "''/local/a.jpg''"
            and f = "File ''/local/a.jpg''" and ty = ImageMaterial and desc = None]
       a j d l
  show ?thesis by simp
qed

text \<open>
  C5. Whatever the string \<open>p\<close> given as the source is, the first thing the uploader does
  is to fetch \<open>p\<close> over the network when \<open>p\<close> begins with \<open>http://\<close> or \<open>https://\<close>,
  and to read the file at the path \<open>p\<close> in every other case.
\<close>

theorem source_classified_by_prefix:
  "prefix
     (tr @ [if prefix ''http://'' p \<or> prefix ''https://'' p
            then Fetch (GET p) else FileFromPath p])
     (snd (uploadPermanentMaterial w tok p ty desc tr))"
  using upload_trace_shape [of w tok p ty desc tr]
  by (auto simp: startsWith_prefix prefix_def)

theorem source_classified_by_prefix_witness:
  "prefix [Fetch (GET ''https://x/y/pic.png'')]
     (snd (uploadPermanentMaterial (example_world platform) ''TOKEN''
             ''https://x/y/pic.png'' ImageMaterial None []))
   \<and> prefix [Fetch (GET ''http://x/pic.png'')]
     (snd (uploadPermanentMaterial (example_world platform) ''TOKEN''
             ''http://x/pic.png'' ImageMaterial None []))
   \<and> prefix [FileFromPath ''/local/a.jpg'']
     (snd (uploadPermanentMaterial (example_world platform) ''TOKEN''
             ''/local/a.jpg'' ImageMaterial None []))
   \<and> prefix [FileFromPath ''HTTPS://x/pic.png'']
     (snd (uploadPermanentMaterial (example_world platform) ''TOKEN''
             ''HTTPS://x/pic.png'' ImageMaterial None []))"
  using
    source_classified_by_prefix
      [of "[]" "''https://x/y/pic.png''" "example_world platform" "''TOKEN''" ImageMaterial None]
    source_classified_by_prefix
      [of "[]" "''http://x/pic.png''" "example_world platform" "''TOKEN''" ImageMaterial None]
    source_classified_by_prefix
      [of "[]" "''/local/a.jpg''" "example_world platform" "''TOKEN''" ImageMaterial None]
    source_classified_by_prefix
      [of "[]" "''HTTPS://x/pic.png''" "example_world platform" "''TOKEN''" ImageMaterial None]
  by simp

text \<open>
  C6 (as amended). Given that the token request is answered with a JSON body,
  \<open>getAccessToken\<close> fails if and only if the body carries a truthy (non-zero)
  \<open>errcode\<close> or no non-empty \<open>access_token\<close>. With a truthy \<open>errcode\<close> the message
  of the failure is the fixed text followed by the platform's \<open>errmsg\<close> when that is
  non-empty, and by the code otherwise: its decimal numeral when the code is a safe
  integer, the runtime's text of the number beyond. Without a truthy \<open>errcode\<close> and
  without a token the message is the token-missing one; in every other case the result is
  the \<open>access_token\<close> of the body. The token request is the one outside call made.
\<close>

theorem token_fails_iff_errcode_or_no_token:
  assumes "fetch w tr (GET (token_url appId appSecret)) = Inr r" and "json r = Inr d"
  shows "((\<exists>e. fst (getAccessToken w appId appSecret tr) = Inl e) \<longleftrightarrow>
            truthy_num (errcode d) \<or> \<not> truthy_str (access_token d))
       \<and> (truthy_num (errcode d) \<and> errmsg d = Some m \<and> m \<noteq> [] \<longrightarrow>
            (\<exists>e. fst (getAccessToken w appId appSecret tr) = Inl e \<and>
                 message w e = txt_token_failed @ m \<and> sublist m (message w e)))
       \<and> (errcode d = Some n \<and> n \<noteq> 0 \<and> \<not> truthy_str (errmsg d) \<and> safe_integer n \<longrightarrow>
            (\<exists>e. fst (getAccessToken w appId appSecret tr) = Inl e \<and>
                 message w e = txt_token_failed @ decimal n \<and> sublist (decimal n) (message w e)))
       \<and> (errcode d = Some n \<and> n \<noteq> 0 \<and> \<not> truthy_str (errmsg d) \<and> \<not> safe_integer n \<longrightarrow>
            (\<exists>e. fst (getAccessToken w appId appSecret tr) = Inl e \<and>
                 message w e = txt_token_failed @ number_text w n))
       \<and> (\<not> truthy_num (errcode d) \<and> \<not> truthy_str (access_token d) \<longrightarrow>
            (\<exists>e. fst (getAccessToken w appId appSecret tr) = Inl e \<and>
                 message w e = txt_token_missing))
       \<and> (\<not> truthy_num (errcode d) \<and> truthy_str (access_token d) \<longrightarrow>
            (\<exists>v. access_token d = Some v \<and>
                 fst (getAccessToken w appId appSecret tr) = Inr v))
       \<and> snd (getAccessToken w appId appSecret tr) =
            tr @ [Fetch (GET (token_url appId appSecret))]"
proof -
  have s: "sublist x (y @ x)" for x y :: string
    by (simp add: sublist_append)
  have v: "truthy_str x \<Longrightarrow> x = Some (String_or_empty x)" for x
    by (cases x) simp_all
  note run = getAccessToken_answered [OF assms]
  show ?thesis
  proof (intro conjI impI)
    show "(\<exists>e. fst (getAccessToken w appId appSecret tr) = Inl e) \<longleftrightarrow>
            truthy_num (errcode d) \<or> \<not> truthy_str (access_token d)"
      by (simp add: run)
  next
    assume "truthy_num (errcode d) \<and> errmsg d = Some m \<and> m \<noteq> []"
    then show "\<exists>e. fst (getAccessToken w appId appSecret tr) = Inl e \<and>
                 message w e = txt_token_failed @ m \<and> sublist m (message w e)"
      by (simp add: run errmsg_or_errcode_def s)
  next
    assume "errcode d = Some n \<and> n \<noteq> 0 \<and> \<not> truthy_str (errmsg d) \<and> safe_integer n"
    then show "\<exists>e. fst (getAccessToken w appId appSecret tr) = Inl e \<and>
                 message w e = txt_token_failed @ decimal n \<and> sublist (decimal n) (message w e)"
      by (simp add: run errmsg_or_errcode_def String_of_number_def s)
  next
    assume "errcode d = Some n \<and> n \<noteq> 0 \<and> \<not> truthy_str (errmsg d) \<and> \<not> safe_integer n"
    then show "\<exists>e. fst (getAccessToken w appId appSecret tr) = Inl e \<and>
                 message w e = txt_token_failed @ number_text w n"
      by (simp add: run errmsg_or_errcode_def String_of_number_def)
  next
    assume "\<not> truthy_num (errcode d) \<and> \<not> truthy_str (access_token d)"
    then show "\<exists>e. fst (getAccessToken w appId appSecret tr) = Inl e \<and>
                 message w e = txt_token_missing"
      by (simp add: run)
  next
    assume "\<not> truthy_num (errcode d) \<and> truthy_str (access_token d)"
    then show "\<exists>v. access_token d = Some v \<and> fst (getAccessToken w appId appSecret tr) = Inr v"
      using v [of "access_token d"] by (simp add: run)
  next
    show "snd (getAccessToken w appId appSecret tr) =
            tr @ [Fetch (GET (token_url appId appSecret))]"
      by (rule getAccessToken_trace)
  qed
qed

theorem token_fails_iff_errcode_or_no_token_witness:
  "(\<exists>e. fst (getAccessToken
            (example_world (always (json_response 200
               (no_data\<lparr>errcode := Some 40001, errmsg := Some ''invalid credential''\<rparr>))))
            ''wx1'' ''s3'' []) = Inl e \<and>
        sublist ''invalid credential''
          (message (example_world (always (json_response 200
               (no_data\<lparr>errcode := Some 40001, errmsg := Some ''invalid credential''\<rparr>)))) e))
   \<and> (\<exists>e. fst (getAccessToken
            (example_world (always (json_response 200 (no_data\<lparr>errcode := Some 40001\<rparr>))))
            ''wx1'' ''s3'' []) = Inl e \<and>
        sublist ''40001''
          (message (example_world (always (json_response 200 (no_data\<lparr>errcode := Some 40001\<rparr>)))) e))
   \<and> (\<exists>e. fst (getAccessToken
            (example_world (always (json_response 200 (no_data\<lparr>errcode := Some (10 ^ 21)\<rparr>))))
            ''wx1'' ''s3'' []) = Inl e \<and>
        message (example_world (always (json_response 200 (no_data\<lparr>errcode := Some (10 ^ 21)\<rparr>)))) e =
          txt_token_failed @ ''1e+21'')
   \<and> (\<exists>e. fst (getAccessToken
            (example_world (always (json_response 200 no_data))) ''wx1'' ''s3'' []) = Inl e \<and>
        message (example_world (always (json_response 200 no_data))) e = txt_token_missing)
   \<and> fst (getAccessToken
            (example_world (always (json_response 200 (no_data\<lparr>access_token := Some ''TOKEN''\<rparr>))))
            ''wx1'' ''s3'' []) = Inr ''TOKEN''"
proof -
  let ?d1 = "no_data\<lparr>errcode := Some 40001, errmsg := Some ''invalid credential''\<rparr>"
  let ?d2 = "no_data\<lparr>errcode := Some 40001\<rparr>"
  let ?d3 = "no_data\<lparr>errcode := Some (10 ^ 21)\<rparr>"
  let ?d5 = "no_data\<lparr>access_token := Some ''TOKEN''\<rparr>"
  have 1: "fetch (example_world (always (json_response 200 x))) [] (GET (token_url ''wx1'' ''s3'')) =
          Inr (json_response 200 x)" for x
    by (simp add: example_world_def always_def)
  have 2: "json (json_response 200 x) = Inr x" for x
    by (simp add: json_response_def)
  have n: "number_text (example_world (always y)) k = ''1e+21''" for y k
    by (simp add: example_world_def)
  have c: "decimal 40001 = ''40001''" "safe_integer 40001" "\<not> safe_integer (10 ^ 21)"
    by (simp_all add: decimal_def digits.simps safe_integer_def)
  have h1: "truthy_num (errcode ?d1) \<and> errmsg ?d1 = Some ''invalid credential'' \<and>
      ''invalid credential'' \<noteq> []"
    by (simp add: no_data_def)
  have h2: "errcode ?d2 = Some 40001 \<and> (40001::int) \<noteq> 0 \<and> \<not> truthy_str (errmsg ?d2) \<and>
      safe_integer 40001"
    by (simp add: no_data_def c)
  have h3: "errcode ?d3 = Some (10 ^ 21) \<and> (10 ^ 21 :: int) \<noteq> 0 \<and> \<not> truthy_str (errmsg ?d3) \<and>
      \<not> safe_integer (10 ^ 21)"
    by (simp add: no_data_def safe_integer_def)
  have h4: "\<not> truthy_num (errcode no_data) \<and> \<not> truthy_str (access_token no_data)"
    by (simp add: no_data_def)
  have h5: "\<not> truthy_num (errcode ?d5) \<and> truthy_str (access_token ?d5)"
    "access_token ?d5 = Some ''TOKEN''"
    by (simp_all add: no_data_def)
  from token_fails_iff_errcode_or_no_token [OF 1 2, of ?d1 "''invalid credential''"] h1
  have a: "\<exists>e. fst (getAccessToken (example_world (always (json_response 200 ?d1))) ''wx1'' ''s3'' []) = Inl e \<and>
        sublist ''invalid credential'' (message (example_world (always (json_response 200 ?d1))) e)"
    by blast
  from token_fails_iff_errcode_or_no_token [OF 1 2, of ?d2 _ 40001] h2
  have "\<exists>e. fst (getAccessToken (example_world (always (json_response 200 ?d2))) ''wx1'' ''s3'' []) = Inl e \<and>
        sublist (decimal 40001) (message (example_world (always (json_response 200 ?d2))) e)"
    by blast
  then have b: "\<exists>e. fst (getAccessToken (example_world (always (json_response 200 ?d2))) ''wx1'' ''s3'' []) = Inl e \<and>
        sublist ''40001'' (message (example_world (always (json_response 200 ?d2))) e)"
    by (simp only: c)
  from token_fails_iff_errcode_or_no_token [OF 1 2, of ?d3 _ "10 ^ 21"] h3
  have "\<exists>e. fst (getAccessToken (example_world (always (json_response 200 ?d3))) ''wx1'' ''s3'' []) = Inl e \<and>
        message (example_world (always (json_response 200 ?d3))) e =
          txt_token_failed @ number_text (example_world (always (json_response 200 ?d3))) (10 ^ 21)"
    by blast
  then have c3: "\<exists>e. fst (getAccessToken (example_world (always (json_response 200 ?d3))) ''wx1'' ''s3'' []) = Inl e \<and>
        message (example_world (always (json_response 200 ?d3))) e = txt_token_failed @ ''1e+21''"
    by (simp only: n)
  from token_fails_iff_errcode_or_no_token [OF 1 2, of no_data] h4
  have d4: "\<exists>e. fst (getAccessToken (example_world (always (json_response 200 no_data))) ''wx1'' ''s3'' []) = Inl e \<and>
        message (example_world (always (json_response 200 no_data))) e = txt_token_missing"
    by blast
  from token_fails_iff_errcode_or_no_token [OF 1 2, of ?d5] h5
  have e5: "fst (getAccessToken (example_world (always (json_response 200 ?d5))) ''wx1'' ''s3'' []) =
      Inr ''TOKEN''"
    by auto
  from a b c3 d4 e5 show ?thesis by blast
qed

text \<open>
  C6 as stated fails: a response that contains the error code field with the value 0,
  beside an access token, is not a failure; the token is returned.
\<close>

theorem errcode_zero_token_counterexample:
  "errcode (no_data\<lparr>errcode := Some 0, access_token := Some ''TOKEN''\<rparr>) \<noteq> None
   \<and> fst (getAccessToken
            (example_world (always (json_response 200
               (no_data\<lparr>errcode := Some 0, access_token := Some ''TOKEN''\<rparr>))))
            ''wx1'' ''s3'' []) = Inr ''TOKEN''"
  by (simp add: run_defs)

text \<open>
  C7. For a remote source whose fetch succeeds (a success status and a body \<open>b\<close>) and
  whose URL has the path \<open>path\<close>, the form that is posted next carries in its media field
  the downloaded bytes under the final segment of \<open>path\<close> when that segment is not
  empty, and under the default name of the kind (\<open>image.jpg\<close>, \<open>video.mp4\<close>) when it is
  empty. For a local source whose file can be opened, the media field carries the file
  under the base name of the given path.
\<close>

theorem media_filename:
  "((prefix ''http://'' p \<or> prefix ''https://'' p) \<and> fetch w tr (GET p) = Inr r \<and> ok r \<and>
      body r = Some b \<and> pathname w p = Inr path \<longrightarrow>
      snd (uploadPermanentMaterial w tok p ty desc tr) =
        tr @ [Fetch (GET p),
              Fetch (POST_form (material_url tok ty)
                (media (Blob b)
                   (if final_segment path = [] then default_filename ty else final_segment path)
                 # description_fields ty desc))])
   \<and> (\<not> (prefix ''http://'' p \<or> prefix ''https://'' p) \<and> fileFromPath w tr p = Inr f \<longrightarrow>
      snd (uploadPermanentMaterial w tok p ty desc tr) =
        tr @ [FileFromPath p,
              Fetch (POST_form (material_url tok ty)
                (media f (basename w p) # description_fields ty desc))])"
proof (intro conjI impI)
  assume a: "(prefix ''http://'' p \<or> prefix ''https://'' p) \<and> fetch w tr (GET p) = Inr r \<and> ok r \<and>
      body r = Some b \<and> pathname w p = Inr path"
  then have "resolve_source w p ty tr =
      (Inr (if final_segment path = [] then default_filename ty else final_segment path, Blob b),
       tr @ [Fetch (GET p)])"
    by (simp add: resolve_source_def io_defs Let_def startsWith_prefix pop_split text_of_def
        default_filename_def)
  then show "snd (uploadPermanentMaterial w tok p ty desc tr) =
        tr @ [Fetch (GET p),
              Fetch (POST_form (material_url tok ty)
                (media (Blob b)
                   (if final_segment path = [] then default_filename ty else final_segment path)
                 # description_fields ty desc))]"
    by (simp add: uploadPermanentMaterial_halves bind_io_def submit_material_trace)
next
  assume a: "\<not> (prefix ''http://'' p \<or> prefix ''https://'' p) \<and> fileFromPath w tr p = Inr f"
  then have "resolve_source w p ty tr = (Inr (basename w p, f), tr @ [FileFromPath p])"
    by (simp add: resolve_source_def io_defs Let_def startsWith_prefix)
  then show "snd (uploadPermanentMaterial w tok p ty desc tr) =
        tr @ [FileFromPath p,
              Fetch (POST_form (material_url tok ty)
                (media f (basename w p) # description_fields ty desc))]"
    by (simp add: uploadPermanentMaterial_halves bind_io_def submit_material_trace)
qed

theorem media_filename_witness:
  "snd (uploadPermanentMaterial (example_world platform) ''TOKEN'' ''https://x/y/pic.png''
          ImageMaterial None []) =
     [Fetch (GET ''https://x/y/pic.png''),
      Fetch (POST_form (material_url ''TOKEN'' ImageMaterial) [media (Blob ''PNG'') ''pic.png''])]
   \<and> snd (uploadPermanentMaterial (example_world platform) ''TOKEN'' ''https://x/y/''
          VideoMaterial None []) =
     [Fetch (GET ''https://x/y/''),
      Fetch (POST_form (material_url ''TOKEN'' VideoMaterial) [media (Blob ''PNG'') ''video.mp4''])]
   \<and> snd (uploadPermanentMaterial (example_world platform) ''TOKEN'' ''/local/a.jpg''
          ImageMaterial None []) =
     [FileFromPath ''/local/a.jpg'',
      Fetch (POST_form (material_url ''TOKEN'' ImageMaterial)
        [media (File ''/local/a.jpg'') ''a.jpg''])]"
proof -
  let ?w = "example_world platform"
  let ?r = "\<lparr>status = 200, body = Some ''PNG'', json = Inl ''Unexpected token''\<rparr>"
  have f: "fetch ?w [] (GET ''https://x/y/pic.png'') = Inr ?r"
    "fetch ?w [] (GET ''https://x/y/'') = Inr ?r"
    by (simp_all add: example_world_def startsWith_def)
  have r: "ok ?r" "body ?r = Some ''PNG''" by (simp_all add: ok_def)
  have p: "pathname ?w ''https://x/y/pic.png'' = Inr ''/y/pic.png''"
    "pathname ?w ''https://x/y/'' = Inr ''/y/''"
    by (simp_all add: example_world_def example_pathname_def startsWith_def)
  have l: "fileFromPath ?w [] ''/local/a.jpg'' = Inr (File ''/local/a.jpg'')"
    "basename ?w ''/local/a.jpg'' = ''a.jpg''"
    by (simp_all add: example_world_def final_segment_def)
  have s: "final_segment ''/y/pic.png'' = ''pic.png''" "final_segment ''/y/'' = []"
    by (simp_all add: final_segment_def)
  from media_filename
         [of "''https://x/y/pic.png''" ?w "[]" ?r "''PNG''" "''/y/pic.png''" "''TOKEN''"
             ImageMaterial None]
       f r p s
  have 1: "snd (uploadPermanentMaterial ?w ''TOKEN'' ''https://x/y/pic.png'' ImageMaterial None []) =
     [Fetch (GET ''https://x/y/pic.png''),
      Fetch (POST_form (material_url ''TOKEN'' ImageMaterial) [media (Blob ''PNG'') ''pic.png''])]"
    by (simp add: description_fields_def)
  from media_filename
         [of "''https://x/y/''" ?w "[]" ?r "''PNG''" "''/y/''" "''TOKEN''" VideoMaterial None]
       f r p s
  have 2: "snd (uploadPermanentMaterial ?w ''TOKEN'' ''https://x/y/'' VideoMaterial None []) =
     [Fetch (GET ''https://x/y/''),
      Fetch (POST_form (material_url ''TOKEN'' VideoMaterial) [media (Blob ''PNG'') ''video.mp4''])]"
    by (simp add: description_fields_def default_filename_def)
  from media_filename
         [where p = "''/local/a.jpg''" and w = ?w and tr = "[]" and f = "File ''/local/a.jpg''"
            and tok = "''TOKEN''" and ty = ImageMaterial and desc = None]
       l
  have 3: "snd (uploadPermanentMaterial ?w ''TOKEN'' ''/local/a.jpg'' ImageMaterial None []) =
     [FileFromPath ''/local/a.jpg'',
      Fetch (POST_form (material_url ''TOKEN'' ImageMaterial)
        [media (File ''/local/a.jpg'') ''a.jpg''])]"
    by (simp add: description_fields_def)
  from 1 2 3 show ?thesis by simp
qed

text \<open>
  C8. What the router does with a call of \<open>publish_article\<close> whose arguments lack
  \<open>content\<close>: it does not validate. The missing content becomes the empty string, the
  content formatter is called with it, and the outcome is never the ValidationError.
\<close>

theorem publish_article_without_content:
  "prefix
     (tr @ [GetGzhContent [] (String_or_empty th) ''solarized-light'' True True])
     (snd (call_tool w env
        \<lparr>name = ''publish_article'',
         arguments = Some \<lparr>arg_content = None, theme_id = th, arg_title = ti, images = im\<rparr>\<rparr> tr))
   \<and> fst (call_tool w env
        \<lparr>name = ''publish_article'',
         arguments = Some \<lparr>arg_content = None, theme_id = th, arg_title = ti, images = im\<rparr>\<rparr> tr)
       \<noteq> Inl ValidationError"
  by (simp add: call_tool_def argument_def io_defs Let_def split: sum.splits)

theorem publish_article_without_content_witness:
  "snd (call_tool (example_world platform) credentials
          \<lparr>name = ''publish_article'',
           arguments = Some \<lparr>arg_content = None, theme_id = None, arg_title = None, images = None\<rparr>\<rparr>
          []) =
     [GetGzhContent [] [] ''solarized-light'' True True, PublishToDraft ''this is title'' [] []]
   \<and> fst (call_tool (example_world platform) credentials
          \<lparr>name = ''publish_article'',
           arguments = Some \<lparr>arg_content = None, theme_id = None, arg_title = None, images = None\<rparr>\<rparr>
          []) \<noteq> Inl ValidationError"
  using publish_article_without_content [of "[]" None "example_world platform" credentials None None]
  by (simp add: call_tool_def argument_def io_defs Let_def example_world_def)

text \<open>
  C9. In each of the three helpers, a response whose \<open>errcode\<close> is absent or 0 does not
  take the error branch: the outcome is decided by the success field alone, the token
  or media id when it is present and non-empty, the missing-field failure otherwise.
  This is stated from the answers of the world alone: for the token fetch, for the
  upload of a local file and of a remote one (the form post answered with a success
  status), and for the draft add; each time the result and the trace are given in full.
\<close>

theorem falsy_errcode_is_no_error:
  "(fetch w tr (GET (token_url appId appSecret)) = Inr r \<and> json r = Inr d \<and>
      (errcode d = None \<or> errcode d = Some 0) \<longrightarrow>
      getAccessToken w appId appSecret tr =
        (if truthy_str (access_token d) then Inr (String_or_empty (access_token d))
         else Inl CredentialTokenMissing,
         tr @ [Fetch (GET (token_url appId appSecret))]))
   \<and> (\<not> (prefix ''http://'' p \<or> prefix ''https://'' p) \<and> fileFromPath w tr p = Inr f \<and>
      fetch w (tr @ [FileFromPath p])
        (POST_form (material_url tok ty) (media f (basename w p) # description_fields ty desc)) =
        Inr r \<and>
      ok r \<and> json r = Inr d \<and> (errcode d = None \<or> errcode d = Some 0) \<longrightarrow>
      uploadPermanentMaterial w tok p ty desc tr =
        (if truthy_str (media_id d) then Inr (String_or_empty (media_id d))
         else Inl UploadMediaIdMissing,
         tr @ [FileFromPath p,
               Fetch (POST_form (material_url tok ty)
                 (media f (basename w p) # description_fields ty desc))]))
   \<and> ((prefix ''http://'' p \<or> prefix ''https://'' p) \<and> fetch w tr (GET p) = Inr r0 \<and> ok r0 \<and>
      body r0 = Some b \<and> pathname w p = Inr path \<and>
      fn = (if final_segment path = [] then default_filename ty else final_segment path) \<and>
      fetch w (tr @ [Fetch (GET p)])
        (POST_form (material_url tok ty) (media (Blob b) fn # description_fields ty desc)) =
        Inr r \<and>
      ok r \<and> json r = Inr d \<and> (errcode d = None \<or> errcode d = Some 0) \<longrightarrow>
      uploadPermanentMaterial w tok p ty desc tr =
        (if truthy_str (media_id d) then Inr (String_or_empty (media_id d))
         else Inl UploadMediaIdMissing,
         tr @ [Fetch (GET p),
               Fetch (POST_form (material_url tok ty)
                 (media (Blob b) fn # description_fields ty desc))]))
   \<and> (fetch w tr (POST_json (draft_url tok) (draft_request_body t c ids)) = Inr r \<and>
      json r = Inr d \<and> (errcode d = None \<or> errcode d = Some 0) \<longrightarrow>
      publishImageMessageToDraft w tok t c ids tr =
        (if truthy_str (media_id d) then Inr (String_or_empty (media_id d))
         else Inl DraftMediaIdMissing,
         tr @ [Fetch (POST_json (draft_url tok) (draft_request_body t c ids))]))"
proof (intro conjI impI)
  assume "fetch w tr (GET (token_url appId appSecret)) = Inr r \<and> json r = Inr d \<and>
      (errcode d = None \<or> errcode d = Some 0)"
  then show "getAccessToken w appId appSecret tr =
        (if truthy_str (access_token d) then Inr (String_or_empty (access_token d))
         else Inl CredentialTokenMissing,
         tr @ [Fetch (GET (token_url appId appSecret))])"
    by (auto simp: getAccessToken_answered)
next
  assume a: "\<not> (prefix ''http://'' p \<or> prefix ''https://'' p) \<and> fileFromPath w tr p = Inr f \<and>
      fetch w (tr @ [FileFromPath p])
        (POST_form (material_url tok ty) (media f (basename w p) # description_fields ty desc)) =
        Inr r \<and>
      ok r \<and> json r = Inr d \<and> (errcode d = None \<or> errcode d = Some 0)"
  then have "uploadPermanentMaterial w tok p ty desc tr =
      (if \<not> ok r then Inl (UploadStatusError (status r) (text_of r))
       else case json r of
         Inl m \<Rightarrow> Inl (Rejected m)
       | Inr d \<Rightarrow>
           if truthy_num (errcode d)
           then Inl (UploadError (errmsg_or_errcode w (errmsg d) (errcode d)))
           else if \<not> truthy_str (media_id d) then Inl UploadMediaIdMissing
           else Inr (String_or_empty (media_id d)),
       tr @ [FileFromPath p,
             Fetch (POST_form (material_url tok ty)
               (media f (basename w p) # description_fields ty desc))])"
    by (intro upload_local_answered) blast+
  with a show "uploadPermanentMaterial w tok p ty desc tr =
        (if truthy_str (media_id d) then Inr (String_or_empty (media_id d))
         else Inl UploadMediaIdMissing,
         tr @ [FileFromPath p,
               Fetch (POST_form (material_url tok ty)
                 (media f (basename w p) # description_fields ty desc))])"
    by auto
next
  assume a: "(prefix ''http://'' p \<or> prefix ''https://'' p) \<and> fetch w tr (GET p) = Inr r0 \<and> ok r0 \<and>
      body r0 = Some b \<and> pathname w p = Inr path \<and>
      fn = (if final_segment path = [] then default_filename ty else final_segment path) \<and>
      fetch w (tr @ [Fetch (GET p)])
        (POST_form (material_url tok ty) (media (Blob b) fn # description_fields ty desc)) =
        Inr r \<and>
      ok r \<and> json r = Inr d \<and> (errcode d = None \<or> errcode d = Some 0)"
  then have "uploadPermanentMaterial w tok p ty desc tr =
      (if \<not> ok r then Inl (UploadStatusError (status r) (text_of r))
       else case json r of
         Inl m \<Rightarrow> Inl (Rejected m)
       | Inr d \<Rightarrow>
           if truthy_num (errcode d)
           then Inl (UploadError (errmsg_or_errcode w (errmsg d) (errcode d)))
           else if \<not> truthy_str (media_id d) then Inl UploadMediaIdMissing
           else Inr (String_or_empty (media_id d)),
       tr @ [Fetch (GET p),
             Fetch (POST_form (material_url tok ty)
               (media (Blob b) fn # description_fields ty desc))])"
    by (intro upload_remote_answered [where ?r0.0 = r0 and path = path]) blast+
  with a show "uploadPermanentMaterial w tok p ty desc tr =
        (if truthy_str (media_id d) then Inr (String_or_empty (media_id d))
         else Inl UploadMediaIdMissing,
         tr @ [Fetch (GET p),
               Fetch (POST_form (material_url tok ty)
                 (media (Blob b) fn # description_fields ty desc))])"
    by auto
next
  assume "fetch w tr (POST_json (draft_url tok) (draft_request_body t c ids)) = Inr r \<and>
      json r = Inr d \<and> (errcode d = None \<or> errcode d = Some 0)"
  then show "publishImageMessageToDraft w tok t c ids tr =
        (if truthy_str (media_id d) then Inr (String_or_empty (media_id d))
         else Inl DraftMediaIdMissing,
         tr @ [Fetch (POST_json (draft_url tok) (draft_request_body t c ids))])"
    by (auto simp: publishImageMessageToDraft_answered)
qed

theorem falsy_errcode_is_no_error_witness:
  "getAccessToken
     (example_world (always (json_response 200
        (no_data\<lparr>errcode := Some 0, access_token := Some ''TOKEN'', media_id := Some ''MID1''\<rparr>))))
     ''wx1'' ''s3'' [] = (Inr ''TOKEN'', [Fetch (GET (token_url ''wx1'' ''s3''))])
   \<and> uploadPermanentMaterial
     (example_world (always (json_response 200
        (no_data\<lparr>errcode := Some 0, access_token := Some ''TOKEN'', media_id := Some ''MID1''\<rparr>))))
     ''TOKEN'' ''/local/a.jpg'' ImageMaterial None [] =
       (Inr ''MID1'',
        [FileFromPath ''/local/a.jpg'',
         Fetch (POST_form (material_url ''TOKEN'' ImageMaterial)
           [media (File ''/local/a.jpg'') ''a.jpg''])])
   \<and> uploadPermanentMaterial
     (example_world (always (json_response 200
        (no_data\<lparr>errcode := Some 0, access_token := Some ''TOKEN'', media_id := Some ''MID1''\<rparr>))))
     ''TOKEN'' ''https://x/y/pic.png'' ImageMaterial None [] =
       (Inr ''MID1'',
        [Fetch (GET ''https://x/y/pic.png''),
         Fetch (POST_form (material_url ''TOKEN'' ImageMaterial)
           [media (Blob ''{}'') ''pic.png''])])
   \<and> publishImageMessageToDraft
     (example_world (always (json_response 200
        (no_data\<lparr>errcode := Some 0, access_token := Some ''TOKEN'', media_id := Some ''MID1''\<rparr>))))
     ''TOKEN'' ''T'' ''C'' [''MID1''] [] =
       (Inr ''MID1'',
        [Fetch (POST_json (draft_url ''TOKEN'') (draft_request_body ''T'' ''C'' [''MID1'']))])
   \<and> uploadPermanentMaterial
     (example_world (always (json_response 200 (no_data\<lparr>errcode := Some 0\<rparr>))))
     ''TOKEN'' ''/local/a.jpg'' ImageMaterial None [] =
       (Inl UploadMediaIdMissing,
        [FileFromPath ''/local/a.jpg'',
         Fetch (POST_form (material_url ''TOKEN'' ImageMaterial)
           [media (File ''/local/a.jpg'') ''a.jpg''])])"
proof -
  let ?d = "no_data\<lparr>errcode := Some 0, access_token := Some ''TOKEN'', media_id := Some ''MID1''\<rparr>"
  let ?r = "json_response 200 ?d"
  let ?w = "example_world (always ?r)"
  let ?d' = "no_data\<lparr>errcode := Some 0\<rparr>"
  let ?r' = "json_response 200 ?d'"
  let ?w' = "example_world (always ?r')"
  have a: "fetch (example_world (always y)) tr req = Inr y" for y tr req
    by (simp add: example_world_def always_def)
  have j: "json ?r = Inr ?d" "json ?r' = Inr ?d'" "ok ?r" "ok ?r'" "body ?r = Some ''{}''"
    by (simp_all add: json_response_def ok_def)
  have e: "errcode ?d = None \<or> errcode ?d = Some 0" "errcode ?d' = None \<or> errcode ?d' = Some 0"
    by simp_all
  have v: "truthy_str (access_token ?d)" "String_or_empty (access_token ?d) = ''TOKEN''"
    "truthy_str (media_id ?d)" "String_or_empty (media_id ?d) = ''MID1''"
    "\<not> truthy_str (media_id ?d')"
    by (simp_all add: no_data_def)
  have l: "\<not> (prefix ''http://'' ''/local/a.jpg'' \<or> prefix ''https://'' ''/local/a.jpg'')"
    "fileFromPath (example_world y) [] ''/local/a.jpg'' = Inr (File ''/local/a.jpg'')"
    "basename (example_world y) ''/local/a.jpg'' = ''a.jpg''"
    "description_fields ImageMaterial None = []" for y
    by (simp_all add: example_world_def final_segment_def description_fields_def)
  have u: "prefix ''http://'' ''https://x/y/pic.png'' \<or> prefix ''https://'' ''https://x/y/pic.png''"
    "pathname (example_world y) ''https://x/y/pic.png'' = Inr ''/y/pic.png''"
    "''pic.png'' = (if final_segment ''/y/pic.png'' = [] then default_filename ImageMaterial
                    else final_segment ''/y/pic.png'')" for y
    by (simp_all add: example_world_def example_pathname_def startsWith_def final_segment_def)
  from falsy_errcode_is_no_error
         [where w = ?w and tr = "[]" and appId = "''wx1''" and appSecret = "''s3''" and r = ?r
            and d = ?d and tok = "''TOKEN''" and t = "''T''" and c = "''C''" and ids = "[''MID1'']"
            and p = "''/local/a.jpg''" and f = "File ''/local/a.jpg''" and ty = ImageMaterial
            and desc = None]
       a j e l
  have 1: "getAccessToken ?w ''wx1'' ''s3'' [] =
        (if truthy_str (access_token ?d) then Inr (String_or_empty (access_token ?d))
         else Inl CredentialTokenMissing, [] @ [Fetch (GET (token_url ''wx1'' ''s3''))])"
    and 2: "uploadPermanentMaterial ?w ''TOKEN'' ''/local/a.jpg'' ImageMaterial None [] =
        (if truthy_str (media_id ?d) then Inr (String_or_empty (media_id ?d))
         else Inl UploadMediaIdMissing,
         [] @ [FileFromPath ''/local/a.jpg'',
               Fetch (POST_form (material_url ''TOKEN'' ImageMaterial)
                 (media (File ''/local/a.jpg'') ''a.jpg'' # []))])"
    and 4: "publishImageMessageToDraft ?w ''TOKEN'' ''T'' ''C'' [''MID1''] [] =
        (if truthy_str (media_id ?d) then Inr (String_or_empty (media_id ?d))
         else Inl DraftMediaIdMissing,
         [] @ [Fetch (POST_json (draft_url ''TOKEN'') (draft_request_body ''T'' ''C'' [''MID1'']))])"
    by simp_all
  from falsy_errcode_is_no_error
         [where w = ?w and tr = "[]" and r = ?r and ?r0.0 = ?r and b = "''{}''"
            and d = ?d and tok = "''TOKEN''" and p = "''https://x/y/pic.png''"
            and path = "''/y/pic.png''" and fn = "''pic.png''" and ty = ImageMaterial and desc = None]
       a j e u l(4)
  have 3: "uploadPermanentMaterial ?w ''TOKEN'' ''https://x/y/pic.png'' ImageMaterial None [] =
        (if truthy_str (media_id ?d) then Inr (String_or_empty (media_id ?d))
         else Inl UploadMediaIdMissing,
         [] @ [Fetch (GET ''https://x/y/pic.png''),
               Fetch (POST_form (material_url ''TOKEN'' ImageMaterial)
                 (media (Blob ''{}'') ''pic.png'' # []))])"
    by simp
  from falsy_errcode_is_no_error
         [where w = ?w' and tr = "[]" and r = ?r' and d = ?d' and tok = "''TOKEN''"
            and p = "''/local/a.jpg''" and f = "File ''/local/a.jpg''" and ty = ImageMaterial
            and desc = None]
       a j e l
  have 5: "uploadPermanentMaterial ?w' ''TOKEN'' ''/local/a.jpg'' ImageMaterial None [] =
        (if truthy_str (media_id ?d') then Inr (String_or_empty (media_id ?d'))
         else Inl UploadMediaIdMissing,
         [] @ [FileFromPath ''/local/a.jpg'',
               Fetch (POST_form (material_url ''TOKEN'' ImageMaterial)
                 (media (File ''/local/a.jpg'') ''a.jpg'' # []))])"
    by simp
  from 1 2 3 4 5 show ?thesis
    by (simp only: v if_True if_False append_Nil simp_thms)
qed

text \<open>
  C10. \<open>getAccessToken\<close> returns the bearer token string and nothing else: for every
  successful token response the result is exactly the \<open>access_token\<close> string of the
  body, whatever \<open>expires_in\<close> is, and two answers whose bodies differ in
  \<open>expires_in\<close> only give the same outcome (on one and the same runtime). Nothing is cached and no expiry is tested
  in the flow either: every call of \<open>publish_image_message\<close> that passes the two checks
  begins with a token request of its own, whatever has happened before; when that request
  fails the call fails with its error, and when it returns a token the rest of the call
  is the uploads and the draft made with exactly that token.
\<close>

theorem token_ignores_expiry:
  "(fetch w tr (GET (token_url appId appSecret)) = Inr r \<and> json r = Inr d \<and>
      \<not> truthy_num (errcode d) \<and> access_token d = Some v \<and> v \<noteq> [] \<longrightarrow>
      getAccessToken w appId appSecret tr =
        (Inr v, tr @ [Fetch (GET (token_url appId appSecret))]))
   \<and> (fetch w tr (GET (token_url appId appSecret)) = Inr r \<and> json r = Inr d \<and>
      fetch w' tr (GET (token_url appId appSecret)) = Inr r' \<and>
      json r' = Inr (d\<lparr>expires_in := x\<rparr>) \<and> number_text w' = number_text w \<longrightarrow>
      getAccessToken w' appId appSecret tr = getAccessToken w appId appSecret tr)
   \<and> (name request = ''publish_image_message'' \<and>
      env ''WECHAT_APP_ID'' = Some appId \<and> appId \<noteq> [] \<and>
      env ''WECHAT_APP_SECRET'' = Some appSecret \<and> appSecret \<noteq> [] \<and>
      argument arg_title request = Some t \<and> t \<noteq> [] \<and>
      argument arg_content request = Some c \<and> c \<noteq> [] \<and>
      argument images request = Some paths \<and> paths \<noteq> [] \<longrightarrow>
      prefix (tr @ [Fetch (GET (token_url appId appSecret))]) (snd (call_tool w env request tr)) \<and>
      (\<forall>e tr1. getAccessToken w appId appSecret tr = (Inl e, tr1) \<longrightarrow>
         call_tool w env request tr = (Inl e, tr1)) \<and>
      (\<forall>tok tr1. getAccessToken w appId appSecret tr = (Inr tok, tr1) \<longrightarrow>
         call_tool w env request tr =
           bind_io (upload_images w tok paths []) (\<lambda>imageMediaIds.
           bind_io (publishImageMessageToDraft w tok t c imageMediaIds) (\<lambda>mediaId.
           return_io [Text (txt_image_published @ mediaId)])) tr1))"
proof (intro conjI impI allI)
  assume "fetch w tr (GET (token_url appId appSecret)) = Inr r \<and> json r = Inr d \<and>
      \<not> truthy_num (errcode d) \<and> access_token d = Some v \<and> v \<noteq> []"
  then show "getAccessToken w appId appSecret tr =
        (Inr v, tr @ [Fetch (GET (token_url appId appSecret))])"
    by (simp add: getAccessToken_answered)
next
  assume "fetch w tr (GET (token_url appId appSecret)) = Inr r \<and> json r = Inr d \<and>
      fetch w' tr (GET (token_url appId appSecret)) = Inr r' \<and>
      json r' = Inr (d\<lparr>expires_in := x\<rparr>) \<and> number_text w' = number_text w"
  moreover have "String_of_errcode w' k = String_of_errcode w k" if "number_text w' = number_text w" for k
    using that by (cases k) (simp_all add: String_of_number_def)
  ultimately show "getAccessToken w' appId appSecret tr = getAccessToken w appId appSecret tr"
    by (simp add: getAccessToken_answered [of w tr appId appSecret r d]
        getAccessToken_answered [of w' tr appId appSecret r' "d\<lparr>expires_in := x\<rparr>"]
        errmsg_or_errcode_def)
next
  assume a: "name request = ''publish_image_message'' \<and>
      env ''WECHAT_APP_ID'' = Some appId \<and> appId \<noteq> [] \<and>
      env ''WECHAT_APP_SECRET'' = Some appSecret \<and> appSecret \<noteq> [] \<and>
      argument arg_title request = Some t \<and> t \<noteq> [] \<and>
      argument arg_content request = Some c \<and> c \<noteq> [] \<and>
      argument images request = Some paths \<and> paths \<noteq> []"
  then obtain evs where
    "snd (call_tool w env request tr) = tr @ Fetch (GET (token_url appId appSecret)) # evs"
    using call_tool_token_first [of request env appId appSecret t c paths w tr] by blast
  then show "prefix (tr @ [Fetch (GET (token_url appId appSecret))])
      (snd (call_tool w env request tr))"
    by (simp add: prefix_def)
next
  fix e tr1
  assume a: "name request = ''publish_image_message'' \<and>
      env ''WECHAT_APP_ID'' = Some appId \<and> appId \<noteq> [] \<and>
      env ''WECHAT_APP_SECRET'' = Some appSecret \<and> appSecret \<noteq> [] \<and>
      argument arg_title request = Some t \<and> t \<noteq> [] \<and>
      argument arg_content request = Some c \<and> c \<noteq> [] \<and>
      argument images request = Some paths \<and> paths \<noteq> []"
    and g: "getAccessToken w appId appSecret tr = (Inl e, tr1)"
  from a have "call_tool w env request =
           bind_io (getAccessToken w appId appSecret) (\<lambda>accessToken.
           bind_io (upload_images w accessToken paths []) (\<lambda>imageMediaIds.
           bind_io (publishImageMessageToDraft w accessToken t c imageMediaIds) (\<lambda>mediaId.
           return_io [Text (txt_image_published @ mediaId)])))"
    by (intro call_tool_publish_image_message) blast+
  with g show "call_tool w env request tr = (Inl e, tr1)"
    by (simp add: bind_io_def)
next
  fix tok tr1
  assume a: "name request = ''publish_image_message'' \<and>
      env ''WECHAT_APP_ID'' = Some appId \<and> appId \<noteq> [] \<and>
      env ''WECHAT_APP_SECRET'' = Some appSecret \<and> appSecret \<noteq> [] \<and>
      argument arg_title request = Some t \<and> t \<noteq> [] \<and>
      argument arg_content request = Some c \<and> c \<noteq> [] \<and>
      argument images request = Some paths \<and> paths \<noteq> []"
    and g: "getAccessToken w appId appSecret tr = (Inr tok, tr1)"
  from a have "call_tool w env request =
           bind_io (getAccessToken w appId appSecret) (\<lambda>accessToken.
           bind_io (upload_images w accessToken paths []) (\<lambda>imageMediaIds.
           bind_io (publishImageMessageToDraft w accessToken t c imageMediaIds) (\<lambda>mediaId.
           return_io [Text (txt_image_published @ mediaId)])))"
    by (intro call_tool_publish_image_message) blast+
  with g show "call_tool w env request tr =
           bind_io (upload_images w tok paths []) (\<lambda>imageMediaIds.
           bind_io (publishImageMessageToDraft w tok t c imageMediaIds) (\<lambda>mediaId.
           return_io [Text (txt_image_published @ mediaId)])) tr1"
    by (simp add: bind_io_def)
qed

theorem token_ignores_expiry_witness:
  "getAccessToken
     (example_world (always (json_response 200
        (no_data\<lparr>access_token := Some ''TOKEN'', expires_in := Some 7200\<rparr>)))) ''wx1'' ''s3'' [] =
     (Inr ''TOKEN'', [Fetch (GET (token_url ''wx1'' ''s3''))])
   \<and> getAccessToken
     (example_world (always (json_response 200
        (no_data\<lparr>access_token := Some ''TOKEN'', expires_in := Some 0\<rparr>)))) ''wx1'' ''s3'' [] =
     (Inr ''TOKEN'', [Fetch (GET (token_url ''wx1'' ''s3''))])
   \<and> prefix
        [Fetch (GET (token_url ''wx1'' ''s3'')), Fetch (GET (token_url ''wx1'' ''s3''))]
        (snd (call_tool (example_world platform) credentials
           (image_message (Some ''T'') (Some ''C'') (Some [''/local/a.jpg'']))
           [Fetch (GET (token_url ''wx1'' ''s3''))]))
   \<and> call_tool
        (example_world (always (json_response 200
           (no_data\<lparr>errcode := Some 40001, errmsg := Some ''invalid credential''\<rparr>))))
        credentials (image_message (Some ''T'') (Some ''C'') (Some [''/local/a.jpg''])) [] =
      (Inl (CredentialError ''invalid credential''), [Fetch (GET (token_url ''wx1'' ''s3''))])"
proof -
  let ?d = "no_data\<lparr>access_token := Some ''TOKEN'', expires_in := Some 0\<rparr>"
  let ?r = "json_response 200 ?d"
  let ?d' = "no_data\<lparr>access_token := Some ''TOKEN'', expires_in := Some 7200\<rparr>"
  let ?r' = "json_response 200 ?d'"
  let ?dE = "no_data\<lparr>errcode := Some 40001, errmsg := Some ''invalid credential''\<rparr>"
  let ?wE = "example_world (always (json_response 200 ?dE))"
  let ?req = "image_message (Some ''T'') (Some ''C'') (Some [''/local/a.jpg''])"
  have a: "fetch (example_world (always y)) tr req = Inr y" for y tr req
    by (simp add: example_world_def always_def)
  have j: "json ?r = Inr ?d" "json ?r' = Inr (?d\<lparr>expires_in := Some 7200\<rparr>)"
    by (simp_all add: json_response_def no_data_def)
  have d: "\<not> truthy_num (errcode ?d)" "access_token ?d = Some ''TOKEN''"
    by (simp_all add: no_data_def)
  have q: "name ?req = ''publish_image_message''"
    "credentials ''WECHAT_APP_ID'' = Some ''wx1''" "credentials ''WECHAT_APP_SECRET'' = Some ''s3''"
    "argument arg_title ?req = Some ''T''" "argument arg_content ?req = Some ''C''"
    "argument images ?req = Some [''/local/a.jpg'']"
    by (simp_all add: image_message_def argument_def credentials_def)
  have g: "getAccessToken ?wE ''wx1'' ''s3'' [] =
      (Inl (CredentialError ''invalid credential''), [Fetch (GET (token_url ''wx1'' ''s3''))])"
    by (simp add: run_defs errmsg_or_errcode_def)
  have nt: "number_text (example_world y) = number_text (example_world z)" for y z
    by (simp add: example_world_def)
  have h: "name ?req = ''publish_image_message'' \<and>
      credentials ''WECHAT_APP_ID'' = Some ''wx1'' \<and> ''wx1'' \<noteq> [] \<and>
      credentials ''WECHAT_APP_SECRET'' = Some ''s3'' \<and> ''s3'' \<noteq> [] \<and>
      argument arg_title ?req = Some ''T'' \<and> ''T'' \<noteq> [] \<and>
      argument arg_content ?req = Some ''C'' \<and> ''C'' \<noteq> [] \<and>
      argument images ?req = Some [''/local/a.jpg''] \<and> [''/local/a.jpg''] \<noteq> []"
    by (simp add: q)
  note inst = token_ignores_expiry
         [where w = "example_world (always ?r)" and w' = "example_world (always ?r')"
            and tr = "[]" and appId = "''wx1''" and appSecret = "''s3''" and r = ?r and r' = ?r'
            and d = ?d and x = "Some 7200" and v = "''TOKEN''"]
  have "getAccessToken (example_world (always ?r)) ''wx1'' ''s3'' [] =
           (Inr ''TOKEN'', [] @ [Fetch (GET (token_url ''wx1'' ''s3''))])"
    by (rule inst [THEN conjunct1, THEN mp]) (simp add: a json_response_def no_data_def)
  then have 1: "getAccessToken (example_world (always ?r)) ''wx1'' ''s3'' [] =
           (Inr ''TOKEN'', [Fetch (GET (token_url ''wx1'' ''s3''))])"
    by simp
  have 2: "getAccessToken (example_world (always ?r')) ''wx1'' ''s3'' [] =
           getAccessToken (example_world (always ?r)) ''wx1'' ''s3'' []"
    by (rule inst [THEN conjunct2, THEN conjunct1, THEN mp]) (simp add: a j nt)
  note flow = token_ignores_expiry
         [where tr = "[Fetch (GET (token_url ''wx1'' ''s3''))]" and w = "example_world platform"
            and appId = "''wx1''" and appSecret = "''s3''" and request = ?req
            and env = credentials and t = "''T''" and c = "''C''" and paths = "[''/local/a.jpg'']",
          THEN conjunct2, THEN conjunct2, THEN mp, OF h]
  from flow [THEN conjunct1]
  have 3: "prefix [Fetch (GET (token_url ''wx1'' ''s3'')), Fetch (GET (token_url ''wx1'' ''s3''))]
        (snd (call_tool (example_world platform) credentials ?req
           [Fetch (GET (token_url ''wx1'' ''s3''))]))"
    by simp
  note flowE = token_ignores_expiry
         [where tr = "[]" and w = ?wE
            and appId = "''wx1''" and appSecret = "''s3''" and request = ?req
            and env = credentials and t = "''T''" and c = "''C''" and paths = "[''/local/a.jpg'']",
          THEN conjunct2, THEN conjunct2, THEN mp, OF h]
  have 4: "call_tool ?wE credentials ?req [] =
      (Inl (CredentialError ''invalid credential''), [Fetch (GET (token_url ''wx1'' ''s3''))])"
    by (rule flowE [THEN conjunct2, THEN conjunct1, THEN spec, THEN spec, THEN mp, OF g])
  from 1 2 3 4 show ?thesis by (simp only: simp_thms)
qed

end
